theory Spec2Isabelle
  imports
    Complex_Main
    "HOL-Library.Char_ord"
    "HOL-Library.List_Lexorder"
begin

section \<open>The self-upgrade helper of tool-upgrade-go\<close>

text \<open>
  The package has two source files: \<^verbatim>\<open>paths.go\<close> (\<^verbatim>\<open>GetHome\<close>) and
  \<^verbatim>\<open>upgrade.go\<close> (\<^verbatim>\<open>CurrentVersion\<close>, \<^verbatim>\<open>AvailableVersion\<close>,
  \<^verbatim>\<open>CheckAndNotifyIfOutOfDate\<close>, \<^verbatim>\<open>Download\<close>, \<^verbatim>\<open>RemoveBackup\<close>,
  \<^verbatim>\<open>Upgrade\<close>). Every function talks to the operating system, the network or a
  library, so the embedding threads an explicit \<open>world\<close> through each call: the file
  system, the environment, the clock, the HTTP server, an oracle that decides which system
  calls fail, and a trace that records every external interaction in the order in which it
  happens. A Go function returning \<^verbatim>\<open>(T, error)\<close> becomes a function returning a pair
  whose second component is an \<open>error option\<close> (\<open>None\<close> is \<^verbatim>\<open>nil\<close>); a function
  that can panic returns an \<open>outcome\<close>.
\<close>

subsection \<open>Go error values\<close>

text \<open>
  The dynamic types of \<^verbatim>\<open>error\<close> values that the package can meet:
  \<^verbatim>\<open>errors.New\<close>/\<^verbatim>\<open>fmt.Errorf\<close> strings, \<^verbatim>\<open>syscall.Errno\<close>,
  \<^verbatim>\<open>*os.PathError\<close>, \<^verbatim>\<open>*os.LinkError\<close>, \<^verbatim>\<open>*url.Error\<close>, and the wrapper
  that \<^verbatim>\<open>errors.Wrap\<close> of github.com/pkg/errors builds.
\<close>

datatype error =
    ErrorString string
  | Errno string
  | PathError string string error
  | LinkError string string string error
  | UrlError string string error
  | withMessage error string

text \<open>
  \<^verbatim>\<open>strconv.Quote\<close>, which \<^verbatim>\<open>url.Error\<close> uses for its URL. Strings are byte
  strings here: printable ASCII is kept, the quote and the backslash are escaped, control
  characters are written with their escapes, and a byte above 0x7e is written as
  \<^verbatim>\<open>\xhh\<close>, which is how Go writes a byte outside a valid UTF-8 sequence (the
  printable non-ASCII runes of a valid sequence, which Go keeps, are not modelled).
\<close>

definition hex_digit :: "nat \<Rightarrow> char" where
  "hex_digit d = (if d < 10 then char_of (48 + d) else char_of (87 + d))"

definition quote_byte :: "char \<Rightarrow> string" where
  "quote_byte c =
     (let n = (of_char c :: nat) in
      if n = 34 \<or> n = 92 then [CHR 0x5C, c]
      else if 32 \<le> n \<and> n < 127 then [c]
      else if n = 7 then [CHR 0x5C, CHR ''a'']
      else if n = 8 then [CHR 0x5C, CHR ''b'']
      else if n = 12 then [CHR 0x5C, CHR ''f'']
      else if n = 10 then [CHR 0x5C, CHR ''n'']
      else if n = 13 then [CHR 0x5C, CHR ''r'']
      else if n = 9 then [CHR 0x5C, CHR ''t'']
      else if n = 11 then [CHR 0x5C, CHR ''v'']
      else [CHR 0x5C, CHR ''x'', hex_digit (n div 16), hex_digit (n mod 16)])"

definition strconv_Quote :: "string \<Rightarrow> string" where
  "strconv_Quote s = [CHR 0x22] @ concat (map quote_byte s) @ [CHR 0x22]"

fun Error :: "error \<Rightarrow> string" where
  "Error (ErrorString s) = s"
| "Error (Errno s) = s"
| "Error (PathError op path e) = op @ '' '' @ path @ '': '' @ Error e"
| "Error (LinkError op old new e) = op @ '' '' @ old @ '' '' @ new @ '': '' @ Error e"
| "Error (UrlError op url e) = op @ '' '' @ strconv_Quote url @ '': '' @ Error e"
| "Error (withMessage cause msg) = msg @ '': '' @ Error cause"

text \<open>
  \<^verbatim>\<open>errors.Wrap(err, message)\<close>: ``If err is nil, Wrap returns nil'';
  otherwise the cause annotated with the message.
\<close>

definition errors_Wrap :: "error option \<Rightarrow> string \<Rightarrow> error option" where
  "errors_Wrap err message =
     (case err of None \<Rightarrow> None | Some e \<Rightarrow> Some (withMessage e message))"

datatype 'a outcome = Panic string | Ret 'a

subsection \<open>Decimal rendering\<close>

definition digit_char :: "nat \<Rightarrow> char" where
  "digit_char d = char_of (48 + d)"

function Itoa :: "nat \<Rightarrow> string" where
  "Itoa n = (if n < 10 then [digit_char n] else Itoa (n div 10) @ [digit_char (n mod 10)])"
  by pat_completeness auto
termination
  by (relation "measure id") auto

declare Itoa.simps [simp del]

subsection \<open>float64\<close>

text \<open>
  A \<^verbatim>\<open>float64\<close> is a finite value, an infinity or a NaN. The finite values that
  arithmetic produces lie on the binary64 grid: \<open>round64\<close> rounds a rational to the
  nearest number with a 53-bit significand (exponent not below that of the subnormals),
  ties to the even significand. Overflow to an infinity is left out of \<open>round64\<close>: it
  is applied below to values of magnitude at most \<open>2 ^ 63\<close> only. \<open>f64_less\<close> is
  the comparison \<^verbatim>\<open><\<close> of IEEE 754, false whenever an operand is a NaN. (The
  type \<open>float64\<close> also holds finite values off the grid; what is proved for every
  \<open>float64\<close> holds for them as well.)
\<close>

function ilog2 :: "int \<Rightarrow> int" where
  "ilog2 n = (if n < 2 then 0 else ilog2 (n div 2) + 1)"
  by pat_completeness auto
termination
  by (relation "measure nat") auto

declare ilog2.simps [simp del]

definition floor_log2 :: "rat \<Rightarrow> int" where
  "floor_log2 x =
     (if x \<ge> 1 then ilog2 \<lfloor>x\<rfloor>
      else - (ilog2 (\<lceil>1 / x\<rceil> - 1) + 1))"

definition pow2 :: "int \<Rightarrow> rat" where
  "pow2 e = (if e \<ge> 0 then 2 ^ nat e else 1 / 2 ^ nat (- e))"

definition round_half_even :: "rat \<Rightarrow> int" where
  "round_half_even q =
     (let n = \<lfloor>q\<rfloor>; r = q - of_int n in
      if r < 1 / 2 then n
      else if r > 1 / 2 then n + 1
      else if even n then n else n + 1)"

definition round64 :: "rat \<Rightarrow> rat" where
  "round64 x =
     (if x = 0 then 0
      else
        let e = max (floor_log2 \<bar>x\<bar> - 52) (- 1074)
        in of_int (round_half_even (x / pow2 e)) * pow2 e)"

datatype float64 = Finite rat | PosInf | NegInf | NaN

fun f64_less :: "float64 \<Rightarrow> float64 \<Rightarrow> bool" where
  "f64_less NaN y = False"
| "f64_less x NaN = False"
| "f64_less (Finite a) (Finite b) = (a < b)"
| "f64_less (Finite a) PosInf = True"
| "f64_less (Finite a) NegInf = False"
| "f64_less PosInf y = False"
| "f64_less NegInf NegInf = False"
| "f64_less NegInf y = True"

subsection \<open>Time\<close>

text \<open>
  \<^verbatim>\<open>time.Time\<close> values are nanoseconds since the epoch, \<^verbatim>\<open>time.Duration\<close> is an
  \<^verbatim>\<open>int64\<close> count of nanoseconds. \<^verbatim>\<open>Time.Sub\<close> saturates at the largest and
  smallest duration. \<^verbatim>\<open>Duration.Hours\<close> is
  \<^verbatim>\<open>float64(d / Hour) + float64(d % Hour) / (60*60*1e9)\<close>, with Go's truncating
  integer division and remainder, and with every conversion, the division and the
  addition rounded to \<^verbatim>\<open>float64\<close>.
\<close>

definition maxDuration :: int where
  "maxDuration = 2 ^ 63 - 1"

definition minDuration :: int where
  "minDuration = - (2 ^ 63)"

definition Time_Sub :: "int \<Rightarrow> int \<Rightarrow> int" where
  "Time_Sub t u =
     (let d = t - u in
      if d > maxDuration then maxDuration else if d < minDuration then minDuration else d)"

definition Hour :: int where
  "Hour = 60 * 60 * 1000000000"

definition int64_quo :: "int \<Rightarrow> int \<Rightarrow> int" where
  "int64_quo a b = sgn a * sgn b * (\<bar>a\<bar> div \<bar>b\<bar>)"

definition int64_rem :: "int \<Rightarrow> int \<Rightarrow> int" where
  "int64_rem a b = sgn a * (\<bar>a\<bar> mod \<bar>b\<bar>)"

definition Duration_Hours :: "int \<Rightarrow> float64" where
  "Duration_Hours d =
     (let hour = int64_quo d Hour; nsec = int64_rem d Hour
      in Finite (round64 (round64 (of_int hour)
                          + round64 (round64 (of_int nsec) / (60 * 60 * 1000000000)))))"

subsection \<open>The semantic-version library (github.com/blang/semver)\<close>

text \<open>
  The \<^verbatim>\<open>Version\<close> struct and its \<^verbatim>\<open>Compare\<close>, \<^verbatim>\<open>GT\<close>, \<^verbatim>\<open>GTE\<close> and
  \<^verbatim>\<open>String\<close> methods. The parser \<^verbatim>\<open>semver.Make\<close> is not part of the repository
  and no property below depends on how it parses, so it is a parameter of the world
  (field \<open>parser\<close>).
\<close>

record PRVersion =
  VersionStr :: string
  VersionNum :: nat
  IsNum :: bool

record Version =
  Major :: nat
  Minor :: nat
  Patch :: nat
  Pre :: "PRVersion list"
  Build :: "string list"

definition Version_zero :: Version where
  "Version_zero = \<lparr>Major = 0, Minor = 0, Patch = 0, Pre = [], Build = []\<rparr>"

definition PRVersion_Compare :: "PRVersion \<Rightarrow> PRVersion \<Rightarrow> int" where
  "PRVersion_Compare v o' =
     (if IsNum v \<and> \<not> IsNum o' then - 1
      else if \<not> IsNum v \<and> IsNum o' then 1
      else if IsNum v \<and> IsNum o' then
        (if VersionNum v = VersionNum o' then 0
         else if VersionNum v > VersionNum o' then 1 else - 1)
      else
        (if VersionStr v = VersionStr o' then 0
         else if VersionStr v > VersionStr o' then 1 else - 1))"

fun Pre_Compare :: "PRVersion list \<Rightarrow> PRVersion list \<Rightarrow> int" where
  "Pre_Compare [] [] = 0"
| "Pre_Compare [] (y # ys) = - 1"
| "Pre_Compare (x # xs) [] = 1"
| "Pre_Compare (x # xs) (y # ys) =
     (let comp = PRVersion_Compare x y in
      if comp = 0 then Pre_Compare xs ys else if comp = 1 then 1 else - 1)"

definition Compare :: "Version \<Rightarrow> Version \<Rightarrow> int" where
  "Compare v o' =
     (if Major v \<noteq> Major o' then (if Major v > Major o' then 1 else - 1)
      else if Minor v \<noteq> Minor o' then (if Minor v > Minor o' then 1 else - 1)
      else if Patch v \<noteq> Patch o' then (if Patch v > Patch o' then 1 else - 1)
      else if Pre v = [] \<and> Pre o' = [] then 0
      else if Pre v = [] \<and> Pre o' \<noteq> [] then 1
      else if Pre v \<noteq> [] \<and> Pre o' = [] then - 1
      else Pre_Compare (Pre v) (Pre o'))"

definition GT :: "Version \<Rightarrow> Version \<Rightarrow> bool" where
  "GT v o' = (Compare v o' = 1)"

definition GTE :: "Version \<Rightarrow> Version \<Rightarrow> bool" where
  "GTE v o' = (Compare v o' \<ge> 0)"

definition PRVersion_String :: "PRVersion \<Rightarrow> string" where
  "PRVersion_String v = (if IsNum v then Itoa (VersionNum v) else VersionStr v)"

fun join_dots :: "string list \<Rightarrow> string" where
  "join_dots [] = []"
| "join_dots [x] = x"
| "join_dots (x # y # ys) = x @ ''.'' @ join_dots (y # ys)"

definition Version_String :: "Version \<Rightarrow> string" where
  "Version_String v =
     Itoa (Major v) @ ''.'' @ Itoa (Minor v) @ ''.'' @ Itoa (Patch v)
     @ (if Pre v \<noteq> [] then ''-'' @ join_dots (map PRVersion_String (Pre v)) else [])
     @ (if Build v \<noteq> [] then ''+'' @ join_dots (Build v) else [])"

subsection \<open>The world\<close>

text \<open>
  The file system is a flat map from path names to regular files (directories, links and
  permissions checks are not modelled). A file handle is identified with the path it was
  opened at. Modes are written in decimal: \<^verbatim>\<open>0755\<close> is 493, \<^verbatim>\<open>0644\<close> is 420,
  \<^verbatim>\<open>0600\<close> is 384, \<^verbatim>\<open>0666\<close> is 438.
\<close>

record regfile =
  content :: string
  mode :: nat
  mtime :: int

datatype syscall =
    SysOpen string
  | SysStat string
  | SysTruncate string
  | SysCreateTemp string
  | SysChmod string
  | SysWrite string
  | SysRemoveAll string
  | SysRemove string
  | SysRename string string
  | SysCopy string string
  | SysExecutable

datatype event =
    EvSys syscall
  | EvHttpGet string
  | EvStdout string
  | EvStderr string

record response =
  StatusCode :: nat
  Status :: string
  Location :: string
  body :: string
  body_err :: "error option"

text \<open>
  \<open>faults\<close> is the failure oracle: \<open>faults w s = Some e\<close> makes the call \<open>s\<close> fail
  with the error value \<open>e\<close>. \<open>copy_residue\<close> is what a failing \<^verbatim>\<open>shutil.Copy\<close>
  leaves at its destination (\<open>None\<close>: the destination is not touched). \<open>server\<close> says
  what a GET of a URL meets: an error (the request fails without a reply) or a reply.
  \<open>Location\<close> is the reply's \<^verbatim>\<open>Location\<close> header, empty when there is none; a reply
  whose \<open>body_err\<close> is set delivers \<open>body\<close> and then fails instead of reaching end of
  file. \<open>resolve w url loc\<close> stands for \<^verbatim>\<open>URL.Parse\<close>: the URL that the
  \<^verbatim>\<open>Location\<close> \<open>loc\<close> of a reply to \<open>url\<close> denotes, or the error of parsing it.
  \<open>rnd\<close> are the random numbers that name temporary files. An event \<open>EvHttpGet url\<close>
  in the trace is one GET of \<open>url\<close> that the HTTP client undertakes; whether it is
  answered, or fails (at any point, also before anything is sent), is what
  \<open>server w url\<close> says.
\<close>

record world =
  fs :: "string \<rightharpoonup> regfile"
  environ :: "string \<rightharpoonup> string"
  clock :: int
  exe :: string
  Args :: "string list"
  GOOS :: string
  GOARCH :: string
  rnd :: "nat list"
  server :: "string \<Rightarrow> error + response"
  resolve :: "string \<Rightarrow> string \<Rightarrow> error + string"
  faults :: "syscall \<Rightarrow> error option"
  copy_residue :: "regfile option"
  parser :: "string \<Rightarrow> Version \<times> error option"
  trace :: "event list"

definition log :: "event \<Rightarrow> world \<Rightarrow> world" where
  "log e w = w\<lparr>trace := trace w @ [e]\<rparr>"

definition newline :: string where
  "newline = [CHR 0x0A]"

definition ENOENT :: error where
  "ENOENT = Errno ''no such file or directory''"

subsection \<open>Standard-library and third-party primitives\<close>

definition os_Getenv :: "world \<Rightarrow> string \<Rightarrow> string" where
  "os_Getenv w key = (case environ w key of None \<Rightarrow> [] | Some v \<Rightarrow> v)"

definition semver_Make :: "world \<Rightarrow> string \<Rightarrow> Version \<times> error option" where
  "semver_Make w s = parser w s"

text \<open>\<^verbatim>\<open>os.OpenFile(fn, os.O_CREATE|os.O_RDWR, 0644)\<close>: creates the file when absent.\<close>

definition os_OpenFile :: "string \<Rightarrow> world \<Rightarrow> error option \<times> world" where
  "os_OpenFile fn w =
     (let w1 = log (EvSys (SysOpen fn)) w in
      case faults w (SysOpen fn) of
        Some e \<Rightarrow> (Some e, w1)
      | None \<Rightarrow>
          (case fs w fn of
             Some f \<Rightarrow> (None, w1)
           | None \<Rightarrow>
               (None, w1\<lparr>fs := (fs w)(fn \<mapsto> \<lparr>content = [], mode = 420, mtime = clock w\<rparr>)\<rparr>)))"

text \<open>\<^verbatim>\<open>file.Stat()\<close>, reduced to the modification time it reports.\<close>

definition File_Stat :: "string \<Rightarrow> world \<Rightarrow> (int \<times> error option) \<times> world" where
  "File_Stat fn w =
     (let w1 = log (EvSys (SysStat fn)) w in
      case faults w (SysStat fn) of
        Some e \<Rightarrow> ((0, Some e), w1)
      | None \<Rightarrow>
          (case fs w fn of
             None \<Rightarrow> ((0, Some (PathError ''stat'' fn ENOENT)), w1)
           | Some f \<Rightarrow> ((mtime f, None), w1)))"

text \<open>\<^verbatim>\<open>file.Truncate(0)\<close>: empties the file and marks its modification time.\<close>

definition File_Truncate :: "string \<Rightarrow> world \<Rightarrow> error option \<times> world" where
  "File_Truncate fn w =
     (let w1 = log (EvSys (SysTruncate fn)) w in
      case faults w (SysTruncate fn) of
        Some e \<Rightarrow> (Some e, w1)
      | None \<Rightarrow>
          (case fs w fn of
             None \<Rightarrow> (Some (PathError ''truncate'' fn ENOENT), w1)
           | Some f \<Rightarrow> (None, w1\<lparr>fs := (fs w)(fn \<mapsto> f\<lparr>content := [], mtime := clock w\<rparr>)\<rparr>)))"

text \<open>
  \<^verbatim>\<open>ioutil.TempFile("", pattern)\<close>: the directory is \<^verbatim>\<open>os.TempDir()\<close>; a pattern
  with a path separator is rejected; the random string replaces the last \<^verbatim>\<open>*\<close> of
  the pattern or, without one, is added at its end; the file is created exclusively with
  mode 0600, and a name that exists is retried, at most 10000 times.
\<close>

definition os_TempDir :: "world \<Rightarrow> string" where
  "os_TempDir w = (let dir = os_Getenv w ''TMPDIR'' in if dir = [] then ''/tmp'' else dir)"

fun lastStar :: "string \<Rightarrow> (string \<times> string) option" where
  "lastStar [] = None"
| "lastStar (c # cs) =
     (case lastStar cs of
        Some (p, s) \<Rightarrow> Some (c # p, s)
      | None \<Rightarrow> if c = CHR ''*'' then Some ([], cs) else None)"

definition prefixAndSuffix :: "string \<Rightarrow> string \<times> string" where
  "prefixAndSuffix pattern =
     (case lastStar pattern of Some (p, s) \<Rightarrow> (p, s) | None \<Rightarrow> (pattern, []))"

definition joinPath :: "string \<Rightarrow> string \<Rightarrow> string" where
  "joinPath dir name =
     (if dir \<noteq> [] \<and> last dir = CHR ''/'' then dir @ name else dir @ ''/'' @ name)"

fun firstFree :: "(string \<rightharpoonup> regfile) \<Rightarrow> string list \<Rightarrow> string option" where
  "firstFree m [] = None"
| "firstFree m (n # ns) = (if m n = None then Some n else firstFree m ns)"

definition tempNames :: "world \<Rightarrow> string \<Rightarrow> string list" where
  "tempNames w pattern =
     (let (prefix, suffix) = prefixAndSuffix pattern in
      map (\<lambda>r. joinPath (os_TempDir w) (prefix @ Itoa r @ suffix)) (take 10000 (rnd w)))"

definition ioutil_TempFile :: "string \<Rightarrow> world \<Rightarrow> (string \<times> error option) \<times> world" where
  "ioutil_TempFile pattern w =
     (let w1 = log (EvSys (SysCreateTemp pattern)) w in
      if CHR ''/'' \<in> set pattern then
        (([], Some (PathError ''createtemp'' pattern
                      (ErrorString ''pattern contains path separator''))), w1)
      else
        case faults w (SysCreateTemp pattern) of
          Some e \<Rightarrow> (([], Some e), w1)
        | None \<Rightarrow>
            (case firstFree (fs w) (tempNames w pattern) of
               None \<Rightarrow>
                 (([], Some (PathError ''open'' (joinPath (os_TempDir w) pattern)
                               (Errno ''file exists''))), w1)
             | Some name \<Rightarrow>
                 ((name, None),
                  w1\<lparr>fs := (fs w)(name \<mapsto> \<lparr>content = [], mode = 384, mtime = clock w\<rparr>)\<rparr>)))"

definition File_Chmod :: "string \<Rightarrow> nat \<Rightarrow> world \<Rightarrow> error option \<times> world" where
  "File_Chmod fn m w =
     (let w1 = log (EvSys (SysChmod fn)) w in
      case faults w (SysChmod fn) of
        Some e \<Rightarrow> (Some e, w1)
      | None \<Rightarrow>
          (case fs w fn of
             None \<Rightarrow> (Some (PathError ''chmod'' fn ENOENT), w1)
           | Some f \<Rightarrow> (None, w1\<lparr>fs := (fs w)(fn \<mapsto> f\<lparr>mode := m\<rparr>)\<rparr>)))"

text \<open>
  \<^verbatim>\<open>http.Get\<close> with the default client: a reply with status 301, 302, 303, 307 or
  308 that has a \<^verbatim>\<open>Location\<close> is followed by a GET of that location, and the tenth
  request is the last: a redirect after it gives the error ``stopped after 10
  redirects'', a \<^verbatim>\<open>*url.Error\<close> that names the location. A redirect status without
  a \<^verbatim>\<open>Location\<close> is returned as the reply, and a location that does not parse ends
  the call with the error of parsing it (as the current releases of Go do). A GET has no
  body, so 307 and 308 are followed like the others. \<open>client_send k\<close> sends a request
  that up to \<open>k\<close> more may follow; it yields what \<^verbatim>\<open>http.Get\<close> returns and the
  URLs requested, in order.
\<close>

definition is_redirect :: "nat \<Rightarrow> bool" where
  "is_redirect code =
     (code = 301 \<or> code = 302 \<or> code = 303 \<or> code = 307 \<or> code = 308)"

fun client_send ::
  "nat \<Rightarrow> (string \<Rightarrow> error + response) \<Rightarrow> (string \<Rightarrow> string \<Rightarrow> error + string) \<Rightarrow> string
     \<Rightarrow> (error + response) \<times> string list" where
  "client_send k srv rsv url =
     (case srv url of
        Inl err \<Rightarrow> (Inl err, [url])
      | Inr resp \<Rightarrow>
          if is_redirect (StatusCode resp) \<and> Location resp \<noteq> [] then
            (case rsv url (Location resp) of
               Inl err \<Rightarrow> (Inl err, [url])
             | Inr next \<Rightarrow>
                 if k = 0 then
                   (Inl (UrlError ''Get'' (Location resp)
                           (ErrorString ''stopped after 10 redirects'')), [url])
                 else
                   (case client_send (k - 1) srv rsv next of
                      (r, urls) \<Rightarrow> (r, url # urls)))
          else (Inr resp, [url]))"

declare client_send.simps [simp del]

definition http_reply :: "world \<Rightarrow> string \<Rightarrow> error + response" where
  "http_reply w url = fst (client_send 9 (server w) (resolve w) url)"

definition http_requests :: "world \<Rightarrow> string \<Rightarrow> string list" where
  "http_requests w url = snd (client_send 9 (server w) (resolve w) url)"

definition http_Get :: "string \<Rightarrow> world \<Rightarrow> (error + response) \<times> world" where
  "http_Get url w =
     (http_reply w url, w\<lparr>trace := trace w @ map EvHttpGet (http_requests w url)\<rparr>)"

definition ioutil_ReadAll :: "response \<Rightarrow> string \<times> error option" where
  "ioutil_ReadAll resp = (body resp, body_err resp)"

text \<open>
  \<^verbatim>\<open>io.Copy(tmp, resp.Body)\<close>: the bytes the body delivers are appended to the file;
  the result is the write error, or else the error that ended the body.
\<close>

definition io_Copy :: "string \<Rightarrow> response \<Rightarrow> world \<Rightarrow> error option \<times> world" where
  "io_Copy fn resp w =
     (if body resp = [] then (body_err resp, w)
      else
        let w1 = log (EvSys (SysWrite fn)) w in
        case faults w (SysWrite fn) of
          Some e \<Rightarrow> (Some e, w1)
        | None \<Rightarrow>
            (case fs w fn of
               None \<Rightarrow> (Some (PathError ''write'' fn ENOENT), w1)
             | Some f \<Rightarrow>
                 (body_err resp,
                  w1\<lparr>fs := (fs w)(fn \<mapsto> f\<lparr>content := content f @ body resp,
                                            mtime := clock w\<rparr>)\<rparr>)))"

definition os_Executable :: "world \<Rightarrow> (string \<times> error option) \<times> world" where
  "os_Executable w =
     (let w1 = log (EvSys SysExecutable) w in
      case faults w SysExecutable of
        Some e \<Rightarrow> (([], Some e), w1)
      | None \<Rightarrow> ((exe w, None), w1))"

text \<open>\<^verbatim>\<open>os.RemoveAll\<close>: ``If the path does not exist, RemoveAll returns nil''.\<close>

definition os_RemoveAll :: "string \<Rightarrow> world \<Rightarrow> error option \<times> world" where
  "os_RemoveAll path w =
     (let w1 = log (EvSys (SysRemoveAll path)) w in
      case faults w (SysRemoveAll path) of
        Some e \<Rightarrow> (Some e, w1)
      | None \<Rightarrow> (None, w1\<lparr>fs := (fs w)(path := None)\<rparr>))"

definition os_Remove :: "string \<Rightarrow> world \<Rightarrow> error option \<times> world" where
  "os_Remove path w =
     (let w1 = log (EvSys (SysRemove path)) w in
      case faults w (SysRemove path) of
        Some e \<Rightarrow> (Some e, w1)
      | None \<Rightarrow>
          (case fs w path of
             None \<Rightarrow> (Some (PathError ''remove'' path ENOENT), w1)
           | Some f \<Rightarrow> (None, w1\<lparr>fs := (fs w)(path := None)\<rparr>)))"

text \<open>\<^verbatim>\<open>os.Rename\<close> replaces the new path when it exists.\<close>

definition os_Rename :: "string \<Rightarrow> string \<Rightarrow> world \<Rightarrow> error option \<times> world" where
  "os_Rename oldpath newpath w =
     (let w1 = log (EvSys (SysRename oldpath newpath)) w in
      case faults w (SysRename oldpath newpath) of
        Some e \<Rightarrow> (Some e, w1)
      | None \<Rightarrow>
          (case fs w oldpath of
             None \<Rightarrow> (Some (LinkError ''rename'' oldpath newpath ENOENT), w1)
           | Some f \<Rightarrow> (None, w1\<lparr>fs := ((fs w)(oldpath := None))(newpath \<mapsto> f)\<rparr>)))"

text \<open>
  \<^verbatim>\<open>shutil.Copy(src, dst, false)\<close> of github.com/termie/go-shutil: copies the data
  and the mode bits of \<open>src\<close> to \<open>dst\<close>, and refuses to copy a file onto itself.
\<close>

definition shutil_Copy :: "string \<Rightarrow> string \<Rightarrow> world \<Rightarrow> error option \<times> world" where
  "shutil_Copy src dst w =
     (let w1 = log (EvSys (SysCopy src dst)) w in
      case faults w (SysCopy src dst) of
        Some e \<Rightarrow>
          (Some e,
           case copy_residue w of
             None \<Rightarrow> w1
           | Some junk \<Rightarrow> w1\<lparr>fs := (fs w)(dst \<mapsto> junk)\<rparr>)
      | None \<Rightarrow>
          (case fs w src of
             None \<Rightarrow> (Some (PathError ''open'' src ENOENT), w1)
           | Some f \<Rightarrow>
               if src = dst then
                 (Some (ErrorString (src @ '' and '' @ dst @ '' are the same file'')), w1)
               else
                 (None,
                  w1\<lparr>fs := (fs w)(dst \<mapsto> \<lparr>content = content f, mode = mode f,
                                             mtime = clock w\<rparr>)\<rparr>)))"

text \<open>
  \<^verbatim>\<open>filepath.Join\<close> and \<^verbatim>\<open>filepath.Clean\<close> with \<^verbatim>\<open>/\<close> as the separator:
  empty elements are ignored and the result is cleaned: empty and \<^verbatim>\<open>.\<close> elements
  are dropped, an inner \<^verbatim>\<open>..\<close> removes the element before it, \<^verbatim>\<open>..\<close> at
  the root is dropped, and the empty result is \<^verbatim>\<open>.\<close>.
\<close>

fun split_sep :: "string \<Rightarrow> string list" where
  "split_sep [] = [[]]"
| "split_sep (c # cs) =
     (if c = CHR ''/'' then [] # split_sep cs
      else (case split_sep cs of [] \<Rightarrow> [[c]] | e # es \<Rightarrow> (c # e) # es))"

fun join_sep :: "string list \<Rightarrow> string" where
  "join_sep [] = []"
| "join_sep [x] = x"
| "join_sep (x # y # ys) = x @ ''/'' @ join_sep (y # ys)"

definition clean_step :: "bool \<Rightarrow> string list \<Rightarrow> string \<Rightarrow> string list" where
  "clean_step rooted out e =
     (if e = [] \<or> e = ''.'' then out
      else if e = ''..'' then
        (case out of
           [] \<Rightarrow> if rooted then [] else [''..'']
         | t # ts \<Rightarrow> if t = ''..'' then ''..'' # out else ts)
      else e # out)"

definition filepath_Clean :: "string \<Rightarrow> string" where
  "filepath_Clean path =
     (if path = [] then ''.''
      else
        let rooted = (hd path = CHR ''/'');
            out = join_sep (rev (foldl (clean_step rooted) [] (split_sep path)))
        in if rooted then ''/'' @ out else if out = [] then ''.'' else out)"

definition filepath_Join :: "string \<Rightarrow> string \<Rightarrow> string" where
  "filepath_Join a b =
     (if a \<noteq> [] then filepath_Clean (a @ ''/'' @ b)
      else if b \<noteq> [] then filepath_Clean b
      else [])"

subsection \<open>paths.go\<close>

definition GetHome :: "world \<Rightarrow> string" where
  "GetHome w =
     (let home = os_Getenv w ''HOME'' in
      if home = [] then os_Getenv w ''USERPROFILE'' else home)"

subsection \<open>upgrade.go\<close>

definition CurrentVersion :: "world \<Rightarrow> string \<Rightarrow> Version \<times> error option" where
  "CurrentVersion w version = semver_Make w version"

definition AvailableVersion ::
  "string \<Rightarrow> string \<Rightarrow> string \<Rightarrow> world \<Rightarrow> (Version \<times> error option) \<times> world" where
  "AvailableVersion repo filePrefix channel w =
     (case http_Get (repo @ ''/'' @ filePrefix @ channel) w of
        (Inl err, w1) \<Rightarrow> ((Version_zero, Some err), w1)
      | (Inr resp, w1) \<Rightarrow>
          if StatusCode resp \<noteq> 200 then
            ((Version_zero,
              Some (ErrorString (''while getting version; unexpected status '' @ Status resp))),
             w1)
          else
            (case ioutil_ReadAll resp of
               (versionBytes, Some err) \<Rightarrow> ((Version_zero, Some err), w1)
             | (versionBytes, None) \<Rightarrow> (semver_Make w1 versionBytes, w1)))"

definition stderr_error :: "string \<Rightarrow> error \<Rightarrow> world \<Rightarrow> world" where
  "stderr_error line err w =
     log (EvStderr (''error: '' @ Error err @ newline)) (log (EvStderr line) w)"

definition CheckAndNotifyIfOutOfDate ::
  "string \<Rightarrow> string \<Rightarrow> string \<Rightarrow> string \<Rightarrow> string \<Rightarrow> float64 \<Rightarrow> string \<Rightarrow> world
     \<Rightarrow> (bool \<times> error option) \<times> world" where
  "CheckAndNotifyIfOutOfDate tool currentVersion repo filePrefix versionStable
       hoursToCheckForUpdate upgradeCommand w =
     (let fn = filepath_Join (GetHome w) (''.'' @ tool @ ''-version-check'') in
      case os_OpenFile fn w of
        (Some err, w1) \<Rightarrow>
          ((False, Some err),
           stderr_error (''error: cannot create file ('' @ fn @ '') to cache version checks''
                           @ newline) err w1)
      | (None, w1) \<Rightarrow>
          (case File_Stat fn w1 of
             ((fi, Some err), w2) \<Rightarrow>
               ((False, Some err),
                stderr_error (''error: cannot stat ('' @ fn @ '')'' @ newline) err w2)
           | ((fi, None), w2) \<Rightarrow>
               (let diff = Time_Sub (clock w2) fi in
                if f64_less (Duration_Hours diff) hoursToCheckForUpdate then
                  ((False, None), w2)
                else
                  (case File_Truncate fn w2 of
                     (Some err, w3) \<Rightarrow>
                       ((False, Some err),
                        stderr_error (''error: cannot update mtime ('' @ fn @ '')'' @ newline)
                          err w3)
                   | (None, w3) \<Rightarrow>
                       (case CurrentVersion w3 currentVersion of
                          (cur, Some err) \<Rightarrow> ((False, Some err), w3)
                        | (cur, None) \<Rightarrow>
                            (case AvailableVersion repo filePrefix versionStable w3 of
                               ((avail, Some err), w4) \<Rightarrow> ((False, Some err), w4)
                             | ((avail, None), w4) \<Rightarrow>
                                 if GT avail cur then
                                   ((True, None),
                                    log (EvStderr (''A new version of ['' @ tool
                                           @ ''] is available, run: '' @ upgradeCommand
                                           @ newline)) w4)
                                 else ((False, None), w4)))))))"

text \<open>
  \<^verbatim>\<open>Download\<close>, lines 116 to 142: the part that runs after the deferred function is
  registered. Besides the returned pair it yields the final value of the function-scope
  variable \<^verbatim>\<open>err\<close>, which is what the deferred function reads. That variable is
  assigned by \<^verbatim>\<open>resp, err := http.Get(...)\<close> only: the \<^verbatim>\<open>return\<close> of the status
  check does not assign it, and \<^verbatim>\<open>if _, err := io.Copy(...)\<close> declares a new
  \<^verbatim>\<open>err\<close> in the scope of the \<^verbatim>\<open>if\<close>.
\<close>

definition Download_body ::
  "string \<Rightarrow> string \<Rightarrow> string \<Rightarrow> string \<Rightarrow> world
     \<Rightarrow> ((string \<times> error option) \<times> error option) \<times> world" where
  "Download_body repo version tool tmpfn w =
     (case http_Get (repo @ ''/'' @ version @ ''/'' @ tool @ ''_'' @ GOOS w @ ''_'' @ GOARCH w) w of
        (Inl err, w1) \<Rightarrow> ((([], Some err), Some err), w1)
      | (Inr resp, w1) \<Rightarrow>
          if StatusCode resp \<noteq> 200 then
            ((([], Some (ErrorString (''while getting updated binary; unexpected status ''
                                       @ Status resp))), None), w1)
          else
            (case io_Copy tmpfn resp w1 of
               (Some err', w2) \<Rightarrow> ((([], Some err'), None), w2)
             | (None, w2) \<Rightarrow> (((tmpfn, None), None), w2)))"

text \<open>
  The deferred function: \<^verbatim>\<open>tmp.Close(); if err != nil { os.Remove(tmpfn) }\<close>,
  run when the body returns.
\<close>

definition Download_deferred ::
  "string \<Rightarrow> string \<Rightarrow> string \<Rightarrow> string \<Rightarrow> world
     \<Rightarrow> (string \<times> error option) outcome \<times> world" where
  "Download_deferred repo version tool tmpfn w =
     (case Download_body repo version tool tmpfn w of
        ((ret, err), w1) \<Rightarrow>
          (Ret ret, if err \<noteq> None then snd (os_Remove tmpfn w1) else w1))"

definition Download ::
  "string \<Rightarrow> string \<Rightarrow> string \<Rightarrow> world \<Rightarrow> (string \<times> error option) outcome \<times> world" where
  "Download repo version tool w =
     (case ioutil_TempFile (tool @ ''_upgrade'') w of
        ((tmp, Some err), w1) \<Rightarrow> (Ret ([], Some err), w1)
      | ((tmp, None), w1) \<Rightarrow>
          (case File_Chmod tmp 493 w1 of
             (Some err, w2) \<Rightarrow>
               (case err of
                  PathError op path e \<Rightarrow>
                    if Error e \<noteq> ''not supported by windows'' then (Ret ([], Some err), w2)
                    else Download_deferred repo version tool tmp w2
                | _ \<Rightarrow>
                    (Panic ''interface conversion: error is not *os.PathError'', w2))
           | (None, w2) \<Rightarrow> Download_deferred repo version tool tmp w2))"

definition RemoveBackup :: "world \<Rightarrow> (string \<times> string \<times> error option) \<times> world" where
  "RemoveBackup w =
     (case os_Executable w of
        ((arg0, Some err), w1) \<Rightarrow>
          (([], [], errors_Wrap (Some err) ''unable to find executable''), w1)
      | ((arg0, None), w1) \<Rightarrow>
          (let backup = arg0 @ ''~'' in
           case os_RemoveAll backup w1 of
             (Some err, w2) \<Rightarrow>
               ((arg0, backup, errors_Wrap (Some err) (''unable to remove '' @ backup)), w2)
           | (None, w2) \<Rightarrow> ((arg0, backup, None), w2)))"

text \<open>
  The message \<^verbatim>\<open>"... move %s to %s"\<close> reads \<^verbatim>\<open>os.Args[0]\<close>, which panics when
  the argument vector is empty.
\<close>

definition move_hint ::
  "string \<Rightarrow> string \<Rightarrow> error option \<Rightarrow> world \<Rightarrow> error option outcome \<times> world" where
  "move_hint msg tmp err w =
     (case Args w of
        [] \<Rightarrow> (Panic ''index out of range'', w)
      | a0 # _ \<Rightarrow> (Ret (errors_Wrap err (msg @ ''move '' @ tmp @ '' to '' @ a0)), w))"

definition Upgrade ::
  "string \<Rightarrow> string \<Rightarrow> string \<Rightarrow> string \<Rightarrow> string \<Rightarrow> bool option \<Rightarrow> world
     \<Rightarrow> error option outcome \<times> world" where
  "Upgrade tool currentVersion repo filePrefix versionStable upgradeForce w =
     (case CurrentVersion w currentVersion of
        (cur, Some err) \<Rightarrow> (Ret (errors_Wrap (Some err) ''unable to get current version''), w)
      | (cur, None) \<Rightarrow>
     (case AvailableVersion repo filePrefix versionStable w of
        ((avail, Some err), w1) \<Rightarrow>
          (Ret (errors_Wrap (Some err) ''unable to get available version''), w1)
      | ((avail, None), w1) \<Rightarrow>
     (case upgradeForce of
        None \<Rightarrow> (Panic ''invalid memory address or nil pointer dereference'', w1)
      | Some force \<Rightarrow>
          if \<not> force \<and> GTE cur avail then
            (Ret None,
             log (EvStdout (tool @ '' is up-to-date. Go forth and be awesome!'' @ newline)) w1)
          else
     (case RemoveBackup w1 of
        ((arg0, backup, Some err), w2) \<Rightarrow> (Ret (Some err), w2)
      | ((arg0, backup, None), w2) \<Rightarrow>
     (case Download repo (Version_String avail) tool
             (log (EvStdout (''upgrading '' @ arg0 @ '' to '' @ Version_String avail @ newline))
                w2) of
        (Panic p, w3) \<Rightarrow> (Panic p, w3)
      | (Ret (tmp, Some err), w3) \<Rightarrow>
          (Ret (errors_Wrap (Some err) (''unable to upgrade '' @ tool)), w3)
      | (Ret (tmp, None), w3) \<Rightarrow>
     (case os_Rename arg0 backup w3 of
        (Some err, w4) \<Rightarrow>
          move_hint (''unable to upgrade '' @ tool @ '' in-place; '') tmp (Some err) w4
      | (None, w4) \<Rightarrow>
     (case shutil_Copy tmp arg0 w4 of
        (Some copy_err, w5) \<Rightarrow>
          (case os_Rename backup arg0 w5 of
             (Some err, w6) \<Rightarrow>
               move_hint ''upgrade failed and unable to recover from backup; '' tmp (Some err) w6
           | (None, w6) \<Rightarrow>
               move_hint (''unable to upgrade '' @ tool @ '' in-place; '') tmp None w6)
      | (None, w5) \<Rightarrow>
     (case os_Remove tmp w5 of
        (Some err, w6) \<Rightarrow>
          (Ret (errors_Wrap (Some err) (''unable to clean up temp file; remove '' @ tmp)), w6)
      | (None, w6) \<Rightarrow> (Ret None, w6)))))))))"

subsection \<open>Example worlds\<close>

text \<open>
  The repository's README example: tool \<^verbatim>\<open>coolTool\<close> (written in lower case here),
  version channel \<^verbatim>\<open>.version-latest\<close> serving 1.2.3, and the binary of 1.2.3 for
  linux/amd64. The parser of the example world knows the two versions of the example.
\<close>

definition V :: "nat \<Rightarrow> nat \<Rightarrow> nat \<Rightarrow> Version" where
  "V a b c = \<lparr>Major = a, Minor = b, Patch = c, Pre = [], Build = []\<rparr>"

definition demo_parser :: "string \<Rightarrow> Version \<times> error option" where
  "demo_parser s =
     (if s = ''1.2.2'' then (V 1 2 2, None)
      else if s = ''1.2.3'' then (V 1 2 3, None)
      else (Version_zero, Some (ErrorString ''No Major.Minor.Patch elements found'')))"

definition ok_response :: "string \<Rightarrow> response" where
  "ok_response b =
     \<lparr>StatusCode = 200, Status = ''200 OK'', Location = [], body = b, body_err = None\<rparr>"

definition not_found :: response where
  "not_found =
     \<lparr>StatusCode = 404, Status = ''404 Not Found'', Location = [], body = [], body_err = None\<rparr>"

definition demo_server :: "string \<Rightarrow> error + response" where
  "demo_server url =
     (if url = ''http://r/.version-latest'' then Inr (ok_response ''1.2.3'')
      else if url = ''http://r/1.2.3/cooltool_linux_amd64'' then Inr (ok_response ''NEW'')
      else Inr not_found)"

definition w0 :: world where
  "w0 = \<lparr>fs = [''/bin/cooltool'' \<mapsto> \<lparr>content = ''OLD'', mode = 493, mtime = 0\<rparr>],
          environ = Map.empty, clock = 90000000000000, exe = ''/bin/cooltool'',
          Args = [''cooltool''], GOOS = ''linux'', GOARCH = ''amd64'', rnd = [7],
          server = demo_server, resolve = (\<lambda>url loc. Inr loc), faults = (\<lambda>s. None),
          copy_residue = None,
          parser = demo_parser, trace = []\<rparr>"

text \<open>
  \<open>w_chmod e\<close>: the example world in which changing the mode of the temporary file
  fails with the error value \<open>e\<close>. \<open>w_copyfail\<close>: the example world in which the
  copy of the temporary file onto the executable runs out of space after two bytes.
\<close>

definition w_chmod :: "error \<Rightarrow> world" where
  "w_chmod e =
     w0\<lparr>faults := (\<lambda>s. if s = SysChmod ''/tmp/cooltool_upgrade7'' then Some e else None)\<rparr>"

definition w_copyfail :: world where
  "w_copyfail =
     w0\<lparr>faults := (\<lambda>s. if s = SysCopy ''/tmp/cooltool_upgrade7'' ''/bin/cooltool''
                          then Some (ErrorString ''no space left on device'') else None),
        copy_residue := Some \<lparr>content = ''NE'', mode = 438, mtime = 90000000000000\<rparr>\<rparr>"

text \<open>
  \<open>marker_of w fn\<close>: the marker file as \<^verbatim>\<open>os.OpenFile\<close> with \<^verbatim>\<open>O_CREATE\<close>
  leaves it: the file that is there, or a new empty one stamped with the current time.
  \<open>w_marker\<close>: the example world with a marker last touched 25 hours ago.
\<close>

definition marker_of :: "world \<Rightarrow> string \<Rightarrow> regfile" where
  "marker_of w fn =
     (case fs w fn of None \<Rightarrow> \<lparr>content = [], mode = 420, mtime = clock w\<rparr> | Some f \<Rightarrow> f)"

definition w_marker :: world where
  "w_marker = w0\<lparr>fs := (fs w0)(''.cooltool-version-check'' \<mapsto>
                        \<lparr>content = ''x'', mode = 420, mtime = 0\<rparr>)\<rparr>"

text \<open>
  \<open>w_renamefail\<close>: the example world in which the executable cannot be renamed to its
  backup path.
\<close>

definition w_renamefail :: world where
  "w_renamefail =
     w0\<lparr>faults := (\<lambda>s. if s = SysRename ''/bin/cooltool'' ''/bin/cooltool~''
                          then Some (LinkError ''rename'' ''/bin/cooltool'' ''/bin/cooltool~''
                                       (Errno ''permission denied''))
                          else None)\<rparr>"

text \<open>
  \<open>w_bodyerr\<close>: the example world whose server answers 200 and breaks off after two
  bytes of the body. \<open>w_offline\<close>: the example world whose server cannot be reached.
\<close>

definition w_bodyerr :: world where
  "w_bodyerr =
     w0\<lparr>server := (\<lambda>url. Inr \<lparr>StatusCode = 200, Status = ''200 OK'', Location = [],
                                body = ''NE'',
                                body_err = Some (ErrorString ''unexpected EOF'')\<rparr>)\<rparr>"

definition w_offline :: world where
  "w_offline = w0\<lparr>server := (\<lambda>url. Inl (ErrorString ''dial tcp: connection refused''))\<rparr>"




text \<open>
  \<open>w_boundary\<close>: the example world with a marker last touched one nanosecond less
  than 8760 hours (365 days) ago.
\<close>

definition w_boundary :: world where
  "w_boundary =
     w0\<lparr>fs := (fs w0)(''.cooltool-version-check'' \<mapsto>
                        \<lparr>content = ''x'', mode = 420, mtime = 0\<rparr>),
        clock := 8760 * 3600000000000 - 1\<rparr>"

section \<open>Properties\<close>

lemmas prim_defs = log_def os_Getenv_def semver_Make_def os_OpenFile_def File_Stat_def
  File_Truncate_def ioutil_TempFile_def File_Chmod_def http_Get_def ioutil_ReadAll_def
  io_Copy_def os_Executable_def os_RemoveAll_def os_Remove_def os_Rename_def shutil_Copy_def

lemmas demo_defs = w0_def demo_server_def ok_response_def demo_parser_def V_def

subsection \<open>The HTTP client\<close>

lemma client_send_first:
  "\<exists>rest. snd (client_send k srv rsv url) = url # rest"
  by (subst client_send.simps) (simp split: sum.splits prod.splits)


lemma client_send_error:
  "srv url = Inl err \<Longrightarrow> client_send k srv rsv url = (Inl err, [url])"
  by (subst client_send.simps) simp

lemma client_send_direct:
  "srv url = Inr resp \<Longrightarrow> \<not> is_redirect (StatusCode resp) \<or> Location resp = [] \<Longrightarrow>
   client_send k srv rsv url = (Inr resp, [url])"
  by (subst client_send.simps) auto

lemma client_send_reply:
  "fst (client_send k srv rsv url) = Inr resp \<Longrightarrow>
   srv (last (snd (client_send k srv rsv url))) = Inr resp
   \<and> (\<not> is_redirect (StatusCode resp) \<or> Location resp = [])"
proof (induction k arbitrary: url)
  case 0
  then show ?case
    by (subst (asm) client_send.simps, subst client_send.simps)
       (auto split: sum.splits prod.splits if_splits)
next
  case (Suc k)
  show ?case
  proof (cases "srv url")
    case (Inl e)
    then show ?thesis using Suc.prems by (simp add: client_send_error)
  next
    case (Inr r0)
    show ?thesis
    proof (cases "is_redirect (StatusCode r0) \<and> Location r0 \<noteq> []")
      case False
      then have "client_send (Suc k) srv rsv url = (Inr r0, [url])"
        using Inr by (intro client_send_direct) auto
      then show ?thesis using Suc.prems Inr False by auto
    next
      case True
      show ?thesis
      proof (cases "rsv url (Location r0)")
        case (Inl e)
        then have "client_send (Suc k) srv rsv url = (Inl e, [url])"
          using Inr True by (subst client_send.simps) simp
        then show ?thesis using Suc.prems by simp
      next
        case nx: (Inr nxt)
        obtain r urls where rec: "client_send k srv rsv nxt = (r, urls)"
          by (metis prod.exhaust)
        have step: "client_send (Suc k) srv rsv url = (r, url # urls)"
          using Inr True nx rec by (subst client_send.simps) simp
        have r: "r = Inr resp" using Suc.prems step by simp
        obtain rest where urls: "urls = nxt # rest"
          using client_send_first [of k srv rsv nxt] rec by auto
        have "srv (last urls) = Inr resp
              \<and> (\<not> is_redirect (StatusCode resp) \<or> Location resp = [])"
          using Suc.IH [of nxt] rec r by simp
        then show ?thesis using step urls by simp
      qed
    qed
  qed
qed

lemma http_requests_first: "\<exists>rest. http_requests w url = url # rest"
  unfolding http_requests_def by (rule client_send_first)




lemma http_reply_last:
  "http_reply w url = Inr resp \<Longrightarrow>
   server w (last (http_requests w url)) = Inr resp
   \<and> (\<not> is_redirect (StatusCode resp) \<or> Location resp = [])"
  unfolding http_reply_def http_requests_def by (rule client_send_reply)

lemma http_reply_cong:
  "server w' = server w \<Longrightarrow> resolve w' = resolve w \<Longrightarrow> http_reply w' = http_reply w"
  by (rule ext) (simp add: http_reply_def)

subsection \<open>Resolving the available version\<close>

lemma AvailableVersion_world:
  "snd (AvailableVersion repo filePrefix channel w) =
     w\<lparr>trace := trace w @ map EvHttpGet (http_requests w (repo @ ''/'' @ filePrefix @ channel))\<rparr>"
  by (simp add: AvailableVersion_def http_Get_def ioutil_ReadAll_def
           split: sum.splits option.splits prod.splits)

lemma AvailableVersion_fst_cong:
  assumes "server w' = server w" and "resolve w' = resolve w" and "parser w' = parser w"
  shows "fst (AvailableVersion repo filePrefix channel w') =
     fst (AvailableVersion repo filePrefix channel w)"
proof -
  have r: "http_reply w' (repo @ ''/'' @ filePrefix @ channel)
             = http_reply w (repo @ ''/'' @ filePrefix @ channel)"
    by (simp add: http_reply_def assms)
  show ?thesis
    using r assms(3)
    by (simp add: AvailableVersion_def http_Get_def ioutil_ReadAll_def
           semver_Make_def split: sum.splits option.splits prod.splits)
qed




subsection \<open>The up-to-date case of Upgrade\<close>

text \<open>
  Claim C5. When both versions resolve, \<^verbatim>\<open>upgradeForce\<close> points to \<^verbatim>\<open>false\<close> and
  the current version is greater than or equal to the available one, \<^verbatim>\<open>Upgrade\<close>
  returns \<^verbatim>\<open>nil\<close>, and the world it leaves differs from the one it found only in the
  trace, which gains the requests of the one \<^verbatim>\<open>http.Get\<close> of the version channel
  (the GET of the version URL and those of the redirects it follows) and the up-to-date
  message: the file system is the same, no system call was made (no backup removal, temp
  file, rename or copy) and no binary was requested.
\<close>

theorem Upgrade_up_to_date:
  assumes "CurrentVersion w currentVersion = (cur, None)"
    and "fst (AvailableVersion repo filePrefix versionStable w) = (avail, None)"
    and "GTE cur avail"
  shows "Upgrade tool currentVersion repo filePrefix versionStable (Some False) w =
           (Ret None,
            w\<lparr>trace := trace w @
                 map EvHttpGet (http_requests w (repo @ ''/'' @ filePrefix @ versionStable)) @
                 [EvStdout (tool @ '' is up-to-date. Go forth and be awesome!'' @ newline)]\<rparr>)"
proof -
  obtain w1 where av: "AvailableVersion repo filePrefix versionStable w = ((avail, None), w1)"
    using assms(2) by (cases "AvailableVersion repo filePrefix versionStable w") auto
  have w1: "w1 = w\<lparr>trace := trace w @
                map EvHttpGet (http_requests w (repo @ ''/'' @ filePrefix @ versionStable))\<rparr>"
    using AvailableVersion_world [of repo filePrefix versionStable w] av by simp
  show ?thesis
    using assms(1,3) by (simp add: Upgrade_def av w1 log_def)
qed

theorem Upgrade_up_to_date_witness:
  "CurrentVersion w0 ''1.2.3'' = (V 1 2 3, None)
   \<and> fst (AvailableVersion ''http://r'' ''.version-'' ''latest'' w0) = (V 1 2 3, None)
   \<and> GTE (V 1 2 3) (V 1 2 3)
   \<and> http_requests w0 (''http://r'' @ ''/'' @ ''.version-'' @ ''latest'')
       = [''http://r'' @ ''/'' @ ''.version-'' @ ''latest'']
   \<and> Upgrade ''cooltool'' ''1.2.3'' ''http://r'' ''.version-'' ''latest'' (Some False) w0 =
       (Ret None,
        w0\<lparr>trace := trace w0 @
             [EvHttpGet (''http://r'' @ ''/'' @ ''.version-'' @ ''latest''),
              EvStdout (''cooltool'' @ '' is up-to-date. Go forth and be awesome!'' @ newline)]\<rparr>)"
proof -
  have h1: "CurrentVersion w0 ''1.2.3'' = (V 1 2 3, None)"
    by code_simp
  have h2: "fst (AvailableVersion ''http://r'' ''.version-'' ''latest'' w0) = (V 1 2 3, None)"
    by code_simp
  have h3: "GTE (V 1 2 3) (V 1 2 3)"
    by code_simp
  have h4: "http_requests w0 (''http://r'' @ ''/'' @ ''.version-'' @ ''latest'')
       = [''http://r'' @ ''/'' @ ''.version-'' @ ''latest'']"
    by code_simp
  have u: "Upgrade ''cooltool'' ''1.2.3'' ''http://r'' ''.version-'' ''latest'' (Some False) w0 =
       (Ret None,
        w0\<lparr>trace := trace w0 @
             [EvHttpGet (''http://r'' @ ''/'' @ ''.version-'' @ ''latest''),
              EvStdout (''cooltool'' @ '' is up-to-date. Go forth and be awesome!'' @ newline)]\<rparr>)"
    using Upgrade_up_to_date [OF h1 h2 h3, of "''cooltool''"] unfolding h4 by simp
  show ?thesis
    by (intro conjI h1 h2 h3 h4 u)
qed

subsection \<open>Download\<close>

lemma Download_deferred_requests:
  "\<exists>ret w' rest. Download_deferred repo version tool tmp w = (Ret ret, w')
      \<and> trace w' = trace w @
            EvHttpGet (repo @ ''/'' @ version @ ''/'' @ tool @ ''_'' @ GOOS w @ ''_'' @ GOARCH w)
            # rest"
proof -
  obtain rest where r: "http_requests w
      (repo @ ''/'' @ version @ ''/'' @ tool @ ''_'' @ GOOS w @ ''_'' @ GOARCH w) =
      (repo @ ''/'' @ version @ ''/'' @ tool @ ''_'' @ GOOS w @ ''_'' @ GOARCH w) # rest"
    using http_requests_first by blast
  show ?thesis
    using r
    by (auto simp add: Download_deferred_def Download_body_def prim_defs Let_def
          split: sum.splits option.splits prod.splits)
qed

text \<open>
  Claim C9. When the temporary file was created and \<^verbatim>\<open>tmp.Chmod(0755)\<close> fails with
  the error value \<open>err\<close>: if \<open>err\<close> is not a \<^verbatim>\<open>*os.PathError\<close>, the unchecked type
  assertion panics and \<^verbatim>\<open>Download\<close> returns nothing; if it is a \<^verbatim>\<open>*os.PathError\<close>
  whose underlying message is not exactly \<^verbatim>\<open>not supported by windows\<close>,
  \<^verbatim>\<open>Download\<close> returns that error at once; and only when the underlying message is
  exactly that text does \<^verbatim>\<open>Download\<close> go on and request the binary.
\<close>

theorem Download_chmod_failure:
  assumes "ioutil_TempFile (tool @ ''_upgrade'') w = ((tmp, None), w1)"
    and "File_Chmod tmp 493 w1 = (Some err, w2)"
  shows "((\<forall>op path e. err \<noteq> PathError op path e) \<longrightarrow>
            Download repo version tool w =
              (Panic ''interface conversion: error is not *os.PathError'', w2))
       \<and> (\<forall>op path e. err = PathError op path e
              \<and> Error e \<noteq> ''not supported by windows'' \<longrightarrow>
            Download repo version tool w = (Ret ([], Some err), w2))
       \<and> (\<forall>op path e. err = PathError op path e
              \<and> Error e = ''not supported by windows'' \<longrightarrow>
            (\<exists>ret w' rest. Download repo version tool w = (Ret ret, w')
               \<and> trace w' = trace w2 @
                    EvHttpGet (repo @ ''/'' @ version @ ''/'' @ tool @ ''_'' @ GOOS w2 @ ''_''
                               @ GOARCH w2) # rest))"
proof (intro conjI allI impI)
  assume "\<forall>op path e. err \<noteq> PathError op path e"
  then show "Download repo version tool w =
              (Panic ''interface conversion: error is not *os.PathError'', w2)"
    using assms by (cases err) (simp_all add: Download_def)
next
  fix op path e
  assume "err = PathError op path e \<and> Error e \<noteq> ''not supported by windows''"
  then show "Download repo version tool w = (Ret ([], Some err), w2)"
    using assms by (simp add: Download_def)
next
  fix op path e
  assume "err = PathError op path e \<and> Error e = ''not supported by windows''"
  then have "Download repo version tool w = Download_deferred repo version tool tmp w2"
    using assms by (simp add: Download_def)
  then show "\<exists>ret w' rest. Download repo version tool w = (Ret ret, w')
               \<and> trace w' = trace w2 @
                    EvHttpGet (repo @ ''/'' @ version @ ''/'' @ tool @ ''_'' @ GOOS w2 @ ''_''
                               @ GOARCH w2) # rest"
    using Download_deferred_requests [of repo version tool tmp w2] by simp
qed

theorem Download_chmod_failure_witness:
  "fst (ioutil_TempFile (''cooltool'' @ ''_upgrade'') (w_chmod (ErrorString ''boom'')))
     = (''/tmp/cooltool_upgrade7'', None)
   \<and> fst (File_Chmod ''/tmp/cooltool_upgrade7'' 493
            (snd (ioutil_TempFile (''cooltool'' @ ''_upgrade'') (w_chmod (ErrorString ''boom'')))))
     = Some (ErrorString ''boom'')
   \<and> fst (Download ''http://r'' ''1.2.3'' ''cooltool'' (w_chmod (ErrorString ''boom'')))
     = Panic ''interface conversion: error is not *os.PathError''"
proof -
  let ?w = "w_chmod (ErrorString ''boom'')"
  let ?w1 = "snd (ioutil_TempFile (''cooltool'' @ ''_upgrade'') ?w)"
  let ?w2 = "snd (File_Chmod ''/tmp/cooltool_upgrade7'' 493 ?w1)"
  have f1: "fst (ioutil_TempFile (''cooltool'' @ ''_upgrade'') ?w)
              = (''/tmp/cooltool_upgrade7'', None)"
    by code_simp
  have f2: "fst (File_Chmod ''/tmp/cooltool_upgrade7'' 493 ?w1) = Some (ErrorString ''boom'')"
    by code_simp
  have h1: "ioutil_TempFile (''cooltool'' @ ''_upgrade'') ?w
              = ((''/tmp/cooltool_upgrade7'', None), ?w1)"
    using f1 by (simp add: prod_eq_iff)
  have h2: "File_Chmod ''/tmp/cooltool_upgrade7'' 493 ?w1 = (Some (ErrorString ''boom''), ?w2)"
    using f2 by (simp add: prod_eq_iff)
  show ?thesis
    using f1 f2 Download_chmod_failure [OF h1 h2, of "''http://r''" "''1.2.3''"]
    by simp
qed

text \<open>
  Claim C2 says that every failure of \<^verbatim>\<open>Download\<close> after the temporary file exists
  removes that file. The code does not do so when the server answers with a status other
  than 200: in the example world the binary of version 9.9.9 is answered with
  \<^verbatim>\<open>404 Not Found\<close>, \<^verbatim>\<open>Download\<close> returns the ``unexpected status'' error, and
  the temporary file, absent before the call, is still there after it. (The deferred
  function removes the file only when the function-scope \<^verbatim>\<open>err\<close> is set, which the
  \<^verbatim>\<open>return\<close> of the status check does not do.)
\<close>

theorem Download_404_leaves_temp_file:
  "fst (Download ''http://r'' ''9.9.9'' ''cooltool'' w0) =
     Ret ([], Some (ErrorString
                      ''while getting updated binary; unexpected status 404 Not Found''))
   \<and> fs w0 ''/tmp/cooltool_upgrade7'' = None
   \<and> fs (snd (Download ''http://r'' ''9.9.9'' ''cooltool'' w0)) ''/tmp/cooltool_upgrade7'' =
       Some \<lparr>content = [], mode = 493, mtime = 90000000000000\<rparr>"
  by code_simp

text \<open>
  The other failure paths of \<^verbatim>\<open>Download\<close> in the example world: a body that breaks
  off (the error of \<^verbatim>\<open>io.Copy\<close> is a new variable in the scope of the \<^verbatim>\<open>if\<close>) and
  a mode change that is refused (the function returns before the deferred function is
  registered) leave the temporary file behind as well; only a transport failure, which
  sets the function-scope \<^verbatim>\<open>err\<close>, removes it.
\<close>

lemma Download_body_error_leaves_temp_file:
  "fst (Download ''http://r'' ''1.2.3'' ''cooltool'' w_bodyerr) =
     Ret ([], Some (ErrorString ''unexpected EOF''))
   \<and> fs (snd (Download ''http://r'' ''1.2.3'' ''cooltool'' w_bodyerr)) ''/tmp/cooltool_upgrade7''
       = Some \<lparr>content = ''NE'', mode = 493, mtime = 90000000000000\<rparr>"
  by code_simp

lemma Download_chmod_error_leaves_temp_file:
  "fst (Download ''http://r'' ''1.2.3'' ''cooltool''
          (w_chmod (PathError ''chmod'' ''/tmp/cooltool_upgrade7''
                      (Errno ''operation not permitted'')))) =
     Ret ([], Some (PathError ''chmod'' ''/tmp/cooltool_upgrade7''
                      (Errno ''operation not permitted'')))
   \<and> fs (snd (Download ''http://r'' ''1.2.3'' ''cooltool''
                 (w_chmod (PathError ''chmod'' ''/tmp/cooltool_upgrade7''
                             (Errno ''operation not permitted''))))) ''/tmp/cooltool_upgrade7''
       = Some \<lparr>content = [], mode = 384, mtime = 90000000000000\<rparr>"
  by code_simp

lemma Download_transport_error_removes_temp_file:
  "fst (Download ''http://r'' ''1.2.3'' ''cooltool'' w_offline) =
     Ret ([], Some (ErrorString ''dial tcp: connection refused''))
   \<and> fs (snd (Download ''http://r'' ''1.2.3'' ''cooltool'' w_offline)) ''/tmp/cooltool_upgrade7''
       = None"
  by code_simp


subsection \<open>Upgrade: the recovery path\<close>

text \<open>
  Claim C1 says that when the copy onto the executable fails and the recovery rename
  succeeds, the original is restored and \<^verbatim>\<open>Upgrade\<close> returns a non-nil error. In the
  example world \<open>w_copyfail\<close> the copy fails after two bytes and the recovery rename
  succeeds: the original content is back at the executable's path, but \<^verbatim>\<open>Upgrade\<close>
  returns \<^verbatim>\<open>nil\<close>, because \<^verbatim>\<open>err\<close> was overwritten by the result of the successful
  rename before it is handed to \<^verbatim>\<open>errors.Wrap\<close>.
\<close>

theorem Upgrade_recovered_returns_nil:
  "fst (Upgrade ''cooltool'' ''1.2.2'' ''http://r'' ''.version-'' ''latest'' (Some False)
          w_copyfail) = Ret None
   \<and> fs (snd (Upgrade ''cooltool'' ''1.2.2'' ''http://r'' ''.version-'' ''latest'' (Some False)
               w_copyfail)) ''/bin/cooltool''
       = Some \<lparr>content = ''OLD'', mode = 493, mtime = 0\<rparr>
   \<and> fs (snd (Upgrade ''cooltool'' ''1.2.2'' ''http://r'' ''.version-'' ''latest'' (Some False)
               w_copyfail)) ''/tmp/cooltool_upgrade7''
       = Some \<lparr>content = ''NEW'', mode = 493, mtime = 90000000000000\<rparr>"
  by code_simp

subsection \<open>CheckAndNotifyIfOutOfDate\<close>

lemma OpenFile_ok:
  assumes "faults w (SysOpen fn) = None"
  shows "os_OpenFile fn w =
    (None, w\<lparr>fs := (fs w)(fn \<mapsto> (case fs w fn of None \<Rightarrow> \<lparr>content = [], mode = 420, mtime = clock w\<rparr> | Some f \<Rightarrow> f)),
             trace := trace w @ [EvSys (SysOpen fn)]\<rparr>)"
proof (cases "fs w fn")
  case None
  then show ?thesis using assms by (simp add: os_OpenFile_def log_def)
next
  case (Some f)
  then have "(fs w)(fn \<mapsto> f) = fs w" by (simp add: fun_upd_idem)
  then show ?thesis using assms Some by (simp add: os_OpenFile_def log_def)
qed

lemma Stat_ok:
  assumes "faults w (SysStat fn) = None" and "fs w fn = Some f"
  shows "File_Stat fn w = ((mtime f, None), w\<lparr>trace := trace w @ [EvSys (SysStat fn)]\<rparr>)"
  using assms by (simp add: File_Stat_def log_def)

lemma Truncate_ok:
  assumes "faults w (SysTruncate fn) = None" and "fs w fn = Some f"
  shows "File_Truncate fn w =
    (None, w\<lparr>fs := (fs w)(fn \<mapsto> f\<lparr>content := [], mtime := clock w\<rparr>),
             trace := trace w @ [EvSys (SysTruncate fn)]\<rparr>)"
  using assms by (simp add: File_Truncate_def log_def)

lemma Check_tail:
  "\<exists>rest.
     (case CurrentVersion w3 currentVersion of
        (cur, Some err) \<Rightarrow> ((False, Some err), w3)
      | (cur, None) \<Rightarrow>
          (case AvailableVersion repo filePrefix versionStable w3 of
             ((avail, Some err), w4) \<Rightarrow> ((False, Some err), w4)
           | ((avail, None), w4) \<Rightarrow>
               if GT avail cur then ((True, None), log (EvStderr msg) w4)
               else ((False, None), w4)))
     = ((case CurrentVersion w3 currentVersion of
          (cur, Some err) \<Rightarrow> (False, Some err)
        | (cur, None) \<Rightarrow>
          (case fst (AvailableVersion repo filePrefix versionStable w3) of
             (avail, Some err) \<Rightarrow> (False, Some err)
           | (avail, None) \<Rightarrow> (GT avail cur, None))),
        w3\<lparr>trace := trace w3 @ rest\<rparr>)"
proof -
  define gets where
    "gets = map EvHttpGet (http_requests w3 (repo @ ''/'' @ filePrefix @ versionStable))"
  obtain r where av: "AvailableVersion repo filePrefix versionStable w3 =
      (r, w3\<lparr>trace := trace w3 @ gets\<rparr>)"
    using AvailableVersion_world [of repo filePrefix versionStable w3] unfolding gets_def
    by (cases "AvailableVersion repo filePrefix versionStable w3") simp
  obtain cur e where cv: "CurrentVersion w3 currentVersion = (cur, e)" by (metis prod.exhaust)
  obtain avail e' where r: "r = (avail, e')" by (metis prod.exhaust)
  show ?thesis
  proof (cases e)
    case (Some a)
    have "w3 = w3\<lparr>trace := trace w3 @ []\<rparr>" by simp
    then show ?thesis using cv Some by (intro exI [of _ "[]"]) simp
  next
    case None
    show ?thesis
    proof (cases e')
      case (Some a)
      show ?thesis using cv None av r Some
        by (intro exI [of _ gets]) simp
    next
      case n: None
      show ?thesis
      proof (cases "GT avail cur")
        case True
        then show ?thesis using cv None av r n
          by (intro exI [of _ "gets @ [EvStderr msg]"]) (simp add: log_def)
      next
        case False
        then show ?thesis using cv None av r n
          by (intro exI [of _ gets]) simp
      qed
    qed
  qed
qed


lemma Check_skip:
  assumes fn: "fn = filepath_Join (GetHome w) (''.'' @ tool @ ''-version-check'')"
    and op: "faults w (SysOpen fn) = None" and st: "faults w (SysStat fn) = None"
    and elapsed: "f64_less (Duration_Hours (Time_Sub (clock w) (mtime (marker_of w fn)))) hours"
  shows "CheckAndNotifyIfOutOfDate tool currentVersion repo filePrefix versionStable hours
           upgradeCommand w =
         ((False, None),
          w\<lparr>fs := (fs w)(fn \<mapsto> marker_of w fn),
            trace := trace w @ [EvSys (SysOpen fn), EvSys (SysStat fn)]\<rparr>)"
proof -
  let ?w1 = "w\<lparr>fs := (fs w)(fn \<mapsto> marker_of w fn), trace := trace w @ [EvSys (SysOpen fn)]\<rparr>"
  have o: "os_OpenFile fn w = (None, ?w1)"
    using OpenFile_ok [OF op] by (simp add: marker_of_def)
  have s: "File_Stat fn ?w1 =
      ((mtime (marker_of w fn), None), ?w1\<lparr>trace := trace ?w1 @ [EvSys (SysStat fn)]\<rparr>)"
    by (rule Stat_ok) (simp_all add: st)
  show ?thesis
    unfolding CheckAndNotifyIfOutOfDate_def fn [symmetric] Let_def
    using elapsed by (simp add: o s)
qed

lemma Check_pass:
  assumes fn: "fn = filepath_Join (GetHome w) (''.'' @ tool @ ''-version-check'')"
    and op: "faults w (SysOpen fn) = None" and st: "faults w (SysStat fn) = None"
    and tr: "faults w (SysTruncate fn) = None"
    and elapsed: "\<not> f64_less (Duration_Hours (Time_Sub (clock w) (mtime (marker_of w fn)))) hours"
  shows "\<exists>rest. CheckAndNotifyIfOutOfDate tool currentVersion repo filePrefix versionStable hours
           upgradeCommand w =
         ((case CurrentVersion w currentVersion of
            (cur, Some err) \<Rightarrow> (False, Some err)
          | (cur, None) \<Rightarrow>
            (case fst (AvailableVersion repo filePrefix versionStable w) of
               (avail, Some err) \<Rightarrow> (False, Some err)
             | (avail, None) \<Rightarrow> (GT avail cur, None))),
          w\<lparr>fs := (fs w)(fn \<mapsto> (marker_of w fn)\<lparr>content := [], mtime := clock w\<rparr>),
            trace := trace w @ [EvSys (SysOpen fn), EvSys (SysStat fn), EvSys (SysTruncate fn)]
                       @ rest\<rparr>)"
proof -
  define w1 where "w1 = w\<lparr>fs := (fs w)(fn \<mapsto> marker_of w fn),
                           trace := trace w @ [EvSys (SysOpen fn)]\<rparr>"
  define w2 where "w2 = w1\<lparr>trace := trace w1 @ [EvSys (SysStat fn)]\<rparr>"
  define w3 where "w3 = w2\<lparr>fs := (fs w2)(fn \<mapsto> (marker_of w fn)\<lparr>content := [], mtime := clock w2\<rparr>),
                  trace := trace w2 @ [EvSys (SysTruncate fn)]\<rparr>"
  have o: "os_OpenFile fn w = (None, w1)"
    using OpenFile_ok [OF op] by (simp add: marker_of_def w1_def)
  have s: "File_Stat fn w1 = ((mtime (marker_of w fn), None), w2)"
    unfolding w2_def by (rule Stat_ok) (simp_all add: st w1_def)
  have t: "File_Truncate fn w2 = (None, w3)"
    unfolding w3_def by (rule Truncate_ok) (simp_all add: tr w1_def w2_def)
  have c2: "clock w2 = clock w" by (simp add: w2_def w1_def)
  have cv: "CurrentVersion w3 currentVersion = CurrentVersion w currentVersion"
    by (simp add: CurrentVersion_def semver_Make_def w3_def w2_def w1_def)
  have av: "fst (AvailableVersion repo filePrefix versionStable w3)
              = fst (AvailableVersion repo filePrefix versionStable w)"
    by (rule AvailableVersion_fst_cong) (simp_all add: w3_def w2_def w1_def)
  obtain rest where tail:
    "(case CurrentVersion w3 currentVersion of
        (cur, Some err) \<Rightarrow> ((False, Some err), w3)
      | (cur, None) \<Rightarrow>
          (case AvailableVersion repo filePrefix versionStable w3 of
             ((avail, Some err), w4) \<Rightarrow> ((False, Some err), w4)
           | ((avail, None), w4) \<Rightarrow>
               if GT avail cur then ((True, None),
                   log (EvStderr (''A new version of ['' @ tool
                                           @ ''] is available, run: '' @ upgradeCommand
                                           @ newline)) w4)
               else ((False, None), w4)))
     = ((case CurrentVersion w3 currentVersion of
          (cur, Some err) \<Rightarrow> (False, Some err)
        | (cur, None) \<Rightarrow>
          (case fst (AvailableVersion repo filePrefix versionStable w3) of
             (avail, Some err) \<Rightarrow> (False, Some err)
           | (avail, None) \<Rightarrow> (GT avail cur, None))),
        w3\<lparr>trace := trace w3 @ rest\<rparr>)"
    using Check_tail [where ?w3.0 = w3 and currentVersion = currentVersion and repo = repo
        and filePrefix = filePrefix and versionStable = versionStable] by blast
  have "CheckAndNotifyIfOutOfDate tool currentVersion repo filePrefix versionStable hours
           upgradeCommand w =
     ((case CurrentVersion w3 currentVersion of
          (cur, Some err) \<Rightarrow> (False, Some err)
        | (cur, None) \<Rightarrow>
          (case fst (AvailableVersion repo filePrefix versionStable w3) of
             (avail, Some err) \<Rightarrow> (False, Some err)
           | (avail, None) \<Rightarrow> (GT avail cur, None))),
        w3\<lparr>trace := trace w3 @ rest\<rparr>)"
    unfolding CheckAndNotifyIfOutOfDate_def fn [symmetric] Let_def
    using elapsed tail c2 by (simp add: o s t)
  moreover have "w3\<lparr>trace := trace w3 @ rest\<rparr> =
      w\<lparr>fs := (fs w)(fn \<mapsto> (marker_of w fn)\<lparr>content := [], mtime := clock w\<rparr>),
            trace := trace w @ [EvSys (SysOpen fn), EvSys (SysStat fn), EvSys (SysTruncate fn)]
                       @ rest\<rparr>"
    by (simp add: w3_def w2_def w1_def)
  ultimately show ?thesis
    unfolding cv av by (intro exI [of _ rest]) simp
qed

lemma Check_truncate_fails:
  assumes fn: "fn = filepath_Join (GetHome w) (''.'' @ tool @ ''-version-check'')"
    and op: "faults w (SysOpen fn) = None" and st: "faults w (SysStat fn) = None"
    and tr: "faults w (SysTruncate fn) = Some e"
    and elapsed: "\<not> f64_less (Duration_Hours (Time_Sub (clock w) (mtime (marker_of w fn)))) hours"
  shows "CheckAndNotifyIfOutOfDate tool currentVersion repo filePrefix versionStable hours
           upgradeCommand w =
         ((False, Some e),
          w\<lparr>fs := (fs w)(fn \<mapsto> marker_of w fn),
            trace := trace w @ [EvSys (SysOpen fn), EvSys (SysStat fn), EvSys (SysTruncate fn),
                                EvStderr (''error: cannot update mtime ('' @ fn @ '')'' @ newline),
                                EvStderr (''error: '' @ Error e @ newline)]\<rparr>)"
proof -
  define w1 where "w1 = w\<lparr>fs := (fs w)(fn \<mapsto> marker_of w fn),
                           trace := trace w @ [EvSys (SysOpen fn)]\<rparr>"
  define w2 where "w2 = w1\<lparr>trace := trace w1 @ [EvSys (SysStat fn)]\<rparr>"
  define w3 where "w3 = w2\<lparr>trace := trace w2 @ [EvSys (SysTruncate fn)]\<rparr>"
  have o: "os_OpenFile fn w = (None, w1)"
    using OpenFile_ok [OF op] by (simp add: marker_of_def w1_def)
  have s: "File_Stat fn w1 = ((mtime (marker_of w fn), None), w2)"
    unfolding w2_def by (rule Stat_ok) (simp_all add: st w1_def)
  have t: "File_Truncate fn w2 = (Some e, w3)"
    by (simp add: File_Truncate_def log_def w3_def w2_def w1_def tr)
  have c2: "clock w2 = clock w" by (simp add: w2_def w1_def)
  have "CheckAndNotifyIfOutOfDate tool currentVersion repo filePrefix versionStable hours
           upgradeCommand w =
          ((False, Some e),
           stderr_error (''error: cannot update mtime ('' @ fn @ '')'' @ newline) e w3)"
    unfolding CheckAndNotifyIfOutOfDate_def fn [symmetric] Let_def
    using elapsed c2 by (simp add: o s t)
  moreover have "stderr_error (''error: cannot update mtime ('' @ fn @ '')'' @ newline) e w3 =
      w\<lparr>fs := (fs w)(fn \<mapsto> marker_of w fn),
            trace := trace w @ [EvSys (SysOpen fn), EvSys (SysStat fn), EvSys (SysTruncate fn),
                                EvStderr (''error: cannot update mtime ('' @ fn @ '')'' @ newline),
                                EvStderr (''error: '' @ Error e @ newline)]\<rparr>"
    by (simp add: stderr_error_def log_def w3_def w2_def w1_def)
  ultimately show ?thesis by simp
qed

text \<open>
  Claim C4 says that the call returns \<^verbatim>\<open>false\<close> without resolving a version whenever
  the time since the marker's modification is less than the configured hours. The code
  compares \<^verbatim>\<open>float64\<close> values, and \<^verbatim>\<open>Duration.Hours\<close> rounds: in the world
  \<open>w_boundary\<close> the marker is one nanosecond less than 8760 hours old, which
  \<^verbatim>\<open>Hours\<close> gives as 8760, and with an interval of 8760 hours the call truncates the
  marker, requests the available version and returns \<^verbatim>\<open>true\<close>. Likewise a marker
  that is six minutes old passes an interval of \<^verbatim>\<open>0.1\<close>, the \<^verbatim>\<open>float64\<close> nearest to
  one tenth, which is greater than one tenth.
\<close>

theorem CheckAndNotifyIfOutOfDate_rounding_counterexample:
  "Time_Sub (clock w_boundary) (mtime (marker_of w_boundary ''.cooltool-version-check''))
     = 8760 * Hour - 1
   \<and> (of_int (8760 * Hour - 1) :: rat) / of_int Hour < 8760
   \<and> Duration_Hours (8760 * Hour - 1) = Finite 8760
   \<and> fst (CheckAndNotifyIfOutOfDate ''cooltool'' ''1.2.2'' ''http://r'' ''.version-'' ''latest''
            (Finite 8760) ''cooltool upgrade'' w_boundary) = (True, None)
   \<and> trace (snd (CheckAndNotifyIfOutOfDate ''cooltool'' ''1.2.2'' ''http://r'' ''.version-''
                    ''latest'' (Finite 8760) ''cooltool upgrade'' w_boundary))
       = [EvSys (SysOpen ''.cooltool-version-check''),
          EvSys (SysStat ''.cooltool-version-check''),
          EvSys (SysTruncate ''.cooltool-version-check''),
          EvHttpGet ''http://r/.version-latest'',
          EvStderr (''A new version of [cooltool] is available, run: cooltool upgrade''
                    @ newline)]"
  by code_simp

lemma Duration_Hours_six_minutes:
  "(of_int (6 * 60 * 1000000000) :: rat) / of_int Hour < round64 (1 / 10)
   \<and> \<not> f64_less (Duration_Hours (6 * 60 * 1000000000)) (Finite (round64 (1 / 10)))"
  by code_simp

text \<open>
  Claim C4, as amended. Let \<open>fn\<close> be the marker path and let the marker be opened and
  stat'ed without error. If \<^verbatim>\<open>time.Now().Sub(fi.ModTime()).Hours()\<close>, the
  \<^verbatim>\<open>float64\<close> that the code computes, is less than \<^verbatim>\<open>hoursToCheckForUpdate\<close> in the
  \<^verbatim>\<open>float64\<close> comparison (which is false for a NaN), the function returns
  \<^verbatim>\<open>(false, nil)\<close> and the only things it did were to open and stat the marker: no
  version was resolved and no request was sent. Otherwise, when the truncation succeeds,
  the result is decided by the versions alone: an error of parsing the current version or
  of resolving the available version is returned with \<^verbatim>\<open>false\<close>, and without error the
  boolean is \<^verbatim>\<open>avail.GT(curr)\<close>; and when the truncation fails, its error is returned
  with \<^verbatim>\<open>false\<close>.
\<close>

theorem CheckAndNotifyIfOutOfDate_decision:
  assumes "fn = filepath_Join (GetHome w) (''.'' @ tool @ ''-version-check'')"
    and "faults w (SysOpen fn) = None" and "faults w (SysStat fn) = None"
  shows "(f64_less (Duration_Hours (Time_Sub (clock w) (mtime (marker_of w fn)))) hours \<longrightarrow>
            fst (CheckAndNotifyIfOutOfDate tool currentVersion repo filePrefix versionStable
                   hours upgradeCommand w) = (False, None)
          \<and> trace (snd (CheckAndNotifyIfOutOfDate tool currentVersion repo filePrefix
                           versionStable hours upgradeCommand w))
              = trace w @ [EvSys (SysOpen fn), EvSys (SysStat fn)])
       \<and> (\<not> f64_less (Duration_Hours (Time_Sub (clock w) (mtime (marker_of w fn)))) hours
            \<and> faults w (SysTruncate fn) = None \<longrightarrow>
            fst (CheckAndNotifyIfOutOfDate tool currentVersion repo filePrefix versionStable
                   hours upgradeCommand w) =
              (case parser w currentVersion of
                 (cur, Some err) \<Rightarrow> (False, Some err)
               | (cur, None) \<Rightarrow>
                   (case fst (AvailableVersion repo filePrefix versionStable w) of
                      (avail, Some err) \<Rightarrow> (False, Some err)
                    | (avail, None) \<Rightarrow> (GT avail cur, None))))
       \<and> (\<forall>e. \<not> f64_less (Duration_Hours (Time_Sub (clock w) (mtime (marker_of w fn)))) hours
            \<and> faults w (SysTruncate fn) = Some e \<longrightarrow>
            fst (CheckAndNotifyIfOutOfDate tool currentVersion repo filePrefix versionStable
                   hours upgradeCommand w) = (False, Some e))"
proof (intro conjI impI allI)
  assume g: "f64_less (Duration_Hours (Time_Sub (clock w) (mtime (marker_of w fn)))) hours"
  note r = Check_skip [OF assms g, of currentVersion repo filePrefix versionStable upgradeCommand]
  show "fst (CheckAndNotifyIfOutOfDate tool currentVersion repo filePrefix versionStable
                   hours upgradeCommand w) = (False, None)"
    by (simp add: r)
  show "trace (snd (CheckAndNotifyIfOutOfDate tool currentVersion repo filePrefix
                           versionStable hours upgradeCommand w))
              = trace w @ [EvSys (SysOpen fn), EvSys (SysStat fn)]"
    by (simp add: r)
next
  assume a: "\<not> f64_less (Duration_Hours (Time_Sub (clock w) (mtime (marker_of w fn)))) hours
            \<and> faults w (SysTruncate fn) = None"
  from Check_pass [OF assms conjunct2 [OF a] conjunct1 [OF a],
      of currentVersion repo filePrefix versionStable upgradeCommand]
  obtain rest where r: "CheckAndNotifyIfOutOfDate tool currentVersion repo filePrefix versionStable hours
           upgradeCommand w =
         ((case CurrentVersion w currentVersion of
            (cur, Some err) \<Rightarrow> (False, Some err)
          | (cur, None) \<Rightarrow>
            (case fst (AvailableVersion repo filePrefix versionStable w) of
               (avail, Some err) \<Rightarrow> (False, Some err)
             | (avail, None) \<Rightarrow> (GT avail cur, None))),
          w\<lparr>fs := (fs w)(fn \<mapsto> (marker_of w fn)\<lparr>content := [], mtime := clock w\<rparr>),
            trace := trace w @ [EvSys (SysOpen fn), EvSys (SysStat fn), EvSys (SysTruncate fn)]
                       @ rest\<rparr>)"
    by blast
  show "fst (CheckAndNotifyIfOutOfDate tool currentVersion repo filePrefix versionStable
                   hours upgradeCommand w) =
              (case parser w currentVersion of
                 (cur, Some err) \<Rightarrow> (False, Some err)
               | (cur, None) \<Rightarrow>
                   (case fst (AvailableVersion repo filePrefix versionStable w) of
                      (avail, Some err) \<Rightarrow> (False, Some err)
                    | (avail, None) \<Rightarrow> (GT avail cur, None)))"
    by (simp add: r CurrentVersion_def semver_Make_def)
next
  fix e
  assume a: "\<not> f64_less (Duration_Hours (Time_Sub (clock w) (mtime (marker_of w fn)))) hours
            \<and> faults w (SysTruncate fn) = Some e"
  show "fst (CheckAndNotifyIfOutOfDate tool currentVersion repo filePrefix versionStable
                   hours upgradeCommand w) = (False, Some e)"
    by (simp add: Check_truncate_fails [OF assms conjunct2 [OF a] conjunct1 [OF a]])
qed


lemma demo_fn: "''.cooltool-version-check'' = filepath_Join (GetHome w_marker) (''.'' @ ''cooltool'' @ ''-version-check'')"
  by code_simp
lemma demo_fn0: "''.cooltool-version-check'' = filepath_Join (GetHome w0) (''.'' @ ''cooltool'' @ ''-version-check'')"
  by code_simp
lemma demo_m: "mtime (marker_of w_marker ''.cooltool-version-check'') = 0" "clock w_marker = 90000000000000"
  "mtime (marker_of w0 ''.cooltool-version-check'') = 90000000000000" "clock w0 = 90000000000000"
  by (simp_all add: marker_of_def w_marker_def w0_def)
lemma demo_elapsed: "\<not> f64_less (Duration_Hours (Time_Sub (clock w_marker) (mtime (marker_of w_marker ''.cooltool-version-check'')))) (Finite 24)"
  by code_simp
lemma demo_fresh: "f64_less (Duration_Hours (Time_Sub (clock w0) (mtime (marker_of w0 ''.cooltool-version-check'')))) (Finite 24)"
  by code_simp
lemma demo_f: "faults w_marker s = None" "faults w0 s = None"
  by (simp_all add: w_marker_def w0_def)


lemma demo_cvp: "parser w_marker ''1.2.2'' = (V 1 2 2, None)"
  by code_simp

lemma demo_av: "fst (AvailableVersion ''http://r'' ''.version-'' ''latest'' w_marker) = (V 1 2 3, None)"
  by code_simp

lemma demo_gt: "GT (V 1 2 3) (V 1 2 2)"
  by (simp add: GT_def Compare_def V_def)

theorem CheckAndNotifyIfOutOfDate_decision_witness:
  "''.cooltool-version-check''
      = filepath_Join (GetHome w_marker) (''.'' @ ''cooltool'' @ ''-version-check'')
   \<and> faults w_marker (SysOpen ''.cooltool-version-check'') = None
   \<and> faults w_marker (SysStat ''.cooltool-version-check'') = None
   \<and> faults w_marker (SysTruncate ''.cooltool-version-check'') = None
   \<and> \<not> f64_less (Duration_Hours (Time_Sub (clock w_marker)
                           (mtime (marker_of w_marker ''.cooltool-version-check'')))) (Finite 24)
   \<and> fst (CheckAndNotifyIfOutOfDate ''cooltool'' ''1.2.2'' ''http://r'' ''.version-'' ''latest''
            (Finite 24) ''cooltool upgrade'' w_marker) = (True, None)
   \<and> f64_less (Duration_Hours (Time_Sub (clock w0) (mtime (marker_of w0 ''.cooltool-version-check'')))) (Finite 24)
   \<and> fst (CheckAndNotifyIfOutOfDate ''cooltool'' ''1.2.2'' ''http://r'' ''.version-'' ''latest''
            (Finite 24) ''cooltool upgrade'' w0) = (False, None)"
proof -
  note pass = CheckAndNotifyIfOutOfDate_decision [OF demo_fn demo_f(1) demo_f(1),
          of "Finite 24" "''1.2.2''" "''http://r''" "''.version-''" "''latest''" "''cooltool upgrade''",
          THEN conjunct2, THEN conjunct1, rule_format, OF conjI [OF demo_elapsed demo_f(1)]]
  note skip = CheckAndNotifyIfOutOfDate_decision [OF demo_fn0 demo_f(2) demo_f(2),
          of "Finite 24" "''1.2.2''" "''http://r''" "''.version-''" "''latest''" "''cooltool upgrade''",
          THEN conjunct1, rule_format, OF demo_fresh, THEN conjunct1]
  have p: "fst (CheckAndNotifyIfOutOfDate ''cooltool'' ''1.2.2'' ''http://r'' ''.version-'' ''latest''
            (Finite 24) ''cooltool upgrade'' w_marker) = (True, None)"
    using pass demo_gt by (simp add: demo_cvp demo_av)
  show ?thesis
    by (intro conjI demo_fn demo_f demo_elapsed demo_fresh p skip)
qed


subsection \<open>The marker path without a home directory\<close>

lemma split_sep_single: "CHR ''/'' \<notin> set s \<Longrightarrow> split_sep s = [s]"
  by (induction s) auto

lemma Clean_single:
  assumes "CHR ''/'' \<notin> set s" and "s \<noteq> []" and "s \<noteq> ''.''" and "s \<noteq> ''..''"
  shows "filepath_Clean s = s"
proof -
  have "hd s \<noteq> CHR ''/''"
    using assms(1,2) by (cases s) auto
  then show ?thesis
    using assms by (simp add: filepath_Clean_def split_sep_single clean_step_def)
qed

lemma marker_name_Clean:
  assumes "CHR ''/'' \<notin> set tool"
  shows "filepath_Clean (''.'' @ tool @ ''-version-check'') = ''.'' @ tool @ ''-version-check''"
proof (rule Clean_single)
  show "CHR ''/'' \<notin> set (''.'' @ tool @ ''-version-check'')"
    using assms by simp
  have "length (''.'' @ tool @ ''-version-check'') \<ge> 15" by simp
  then show "''.'' @ tool @ ''-version-check'' \<noteq> ''.''" "''.'' @ tool @ ''-version-check'' \<noteq> ''..''"
    by auto
qed simp

lemma OpenFile_trace: "trace (snd (os_OpenFile fn w)) = trace w @ [EvSys (SysOpen fn)]"
  by (simp add: os_OpenFile_def log_def Let_def split: option.splits)

lemma Stat_trace: "trace (snd (File_Stat fn w)) = trace w @ [EvSys (SysStat fn)]"
  by (simp add: File_Stat_def log_def Let_def split: option.splits)

lemma Truncate_trace: "trace (snd (File_Truncate fn w)) = trace w @ [EvSys (SysTruncate fn)]"
  by (simp add: File_Truncate_def log_def Let_def split: option.splits)

lemma stderr_error_trace:
  "trace (stderr_error line err w) = trace w @ [EvStderr line, EvStderr (''error: '' @ Error err @ newline)]"
  by (simp add: stderr_error_def log_def)

lemma Check_opens_marker:
  "\<exists>rest. trace (snd (CheckAndNotifyIfOutOfDate tool currentVersion repo filePrefix versionStable
                          hours upgradeCommand w))
     = trace w @ EvSys (SysOpen (filepath_Join (GetHome w) (''.'' @ tool @ ''-version-check'')))
         # rest"
proof -
  define fn where "fn = filepath_Join (GetHome w) (''.'' @ tool @ ''-version-check'')"
  obtain e1 w1 where o: "os_OpenFile fn w = (e1, w1)" by (metis prod.exhaust)
  have t1: "trace w1 = trace w @ [EvSys (SysOpen fn)]"
    using OpenFile_trace [of fn w] o by simp
  obtain fi e2 w2 where s: "File_Stat fn w1 = ((fi, e2), w2)" by (metis prod.exhaust)
  have t2: "trace w2 = trace w1 @ [EvSys (SysStat fn)]"
    using Stat_trace [of fn w1] s by simp
  obtain e3 w3 where t: "File_Truncate fn w2 = (e3, w3)" by (metis prod.exhaust)
  have t3: "trace w3 = trace w2 @ [EvSys (SysTruncate fn)]"
    using Truncate_trace [of fn w2] t by simp
  obtain rest where tail:
    "(case CurrentVersion w3 currentVersion of
        (cur, Some err) \<Rightarrow> ((False, Some err), w3)
      | (cur, None) \<Rightarrow>
          (case AvailableVersion repo filePrefix versionStable w3 of
             ((avail, Some err), w4) \<Rightarrow> ((False, Some err), w4)
           | ((avail, None), w4) \<Rightarrow>
               if GT avail cur then ((True, None),
                   log (EvStderr (''A new version of ['' @ tool
                                           @ ''] is available, run: '' @ upgradeCommand
                                           @ newline)) w4)
               else ((False, None), w4)))
     = ((case CurrentVersion w3 currentVersion of
          (cur, Some err) \<Rightarrow> (False, Some err)
        | (cur, None) \<Rightarrow>
          (case fst (AvailableVersion repo filePrefix versionStable w3) of
             (avail, Some err) \<Rightarrow> (False, Some err)
           | (avail, None) \<Rightarrow> (GT avail cur, None))),
        w3\<lparr>trace := trace w3 @ rest\<rparr>)"
    using Check_tail [where ?w3.0 = w3 and currentVersion = currentVersion and repo = repo
        and filePrefix = filePrefix and versionStable = versionStable] by blast
  have "\<exists>rest. trace (snd (CheckAndNotifyIfOutOfDate tool currentVersion repo filePrefix
                    versionStable hours upgradeCommand w)) = trace w @ EvSys (SysOpen fn) # rest"
  proof (cases e1)
    case (Some a)
    then show ?thesis
      unfolding CheckAndNotifyIfOutOfDate_def fn_def [symmetric] Let_def
      by (simp add: o stderr_error_trace t1)
  next
    case n1: None
    show ?thesis
    proof (cases e2)
      case (Some a)
      then show ?thesis
        unfolding CheckAndNotifyIfOutOfDate_def fn_def [symmetric] Let_def
        by (simp add: o n1 s stderr_error_trace t1 t2)
    next
      case n2: None
      show ?thesis
      proof (cases "f64_less (Duration_Hours (Time_Sub (clock w2) fi)) hours")
        case True
        then show ?thesis
          unfolding CheckAndNotifyIfOutOfDate_def fn_def [symmetric] Let_def
          by (simp add: o n1 s n2 t1 t2)
      next
        case False
        show ?thesis
        proof (cases e3)
          case (Some a)
          then show ?thesis
            unfolding CheckAndNotifyIfOutOfDate_def fn_def [symmetric] Let_def
            using False by (simp add: o n1 s n2 t stderr_error_trace t1 t2 t3)
        next
          case n3: None
          show ?thesis
            unfolding CheckAndNotifyIfOutOfDate_def fn_def [symmetric] Let_def
            using False tail by (simp add: o n1 s n2 t n3 t1 t2 t3)
        qed
      qed
    qed
  qed
  then show ?thesis by (simp add: fn_def)
qed

lemma GetHome_unset:
  assumes "environ w ''HOME'' = None \<or> environ w ''HOME'' = Some []"
    and "environ w ''USERPROFILE'' = None \<or> environ w ''USERPROFILE'' = Some []"
  shows "GetHome w = []"
  using assms by (auto simp add: GetHome_def os_Getenv_def)

text \<open>
  Claim C10, as amended. If \<^verbatim>\<open>HOME\<close> and \<^verbatim>\<open>USERPROFILE\<close> are both unset or empty,
  \<^verbatim>\<open>GetHome\<close> returns the empty string, and the marker that
  \<^verbatim>\<open>CheckAndNotifyIfOutOfDate\<close> opens (the first thing it does) is the cleaned relative
  path \<open>filepath_Clean (''.'' @ tool @ ''-version-check'')\<close>, because \<^verbatim>\<open>filepath.Join\<close>
  cleans its result; that path is \<open>''.'' @ tool @ ''-version-check''\<close> itself whenever the
  tool name contains no path separator.
\<close>

theorem GetHome_empty_marker_path:
  assumes "environ w ''HOME'' = None \<or> environ w ''HOME'' = Some []"
    and "environ w ''USERPROFILE'' = None \<or> environ w ''USERPROFILE'' = Some []"
  shows "GetHome w = []
       \<and> (\<exists>rest. trace (snd (CheckAndNotifyIfOutOfDate tool currentVersion repo filePrefix
                               versionStable hours upgradeCommand w))
             = trace w @ EvSys (SysOpen (filepath_Clean (''.'' @ tool @ ''-version-check'')))
                 # rest)
       \<and> (CHR ''/'' \<notin> set tool \<longrightarrow>
            filepath_Clean (''.'' @ tool @ ''-version-check'') = ''.'' @ tool @ ''-version-check'')"
proof -
  have h: "GetHome w = []" by (rule GetHome_unset [OF assms])
  have j: "filepath_Join (GetHome w) (''.'' @ tool @ ''-version-check'')
             = filepath_Clean (''.'' @ tool @ ''-version-check'')"
    by (simp add: h filepath_Join_def)
  show ?thesis
  proof (intro conjI impI)
    show "GetHome w = []" by (rule h)
    show "\<exists>rest. trace (snd (CheckAndNotifyIfOutOfDate tool currentVersion repo filePrefix
                               versionStable hours upgradeCommand w))
             = trace w @ EvSys (SysOpen (filepath_Clean (''.'' @ tool @ ''-version-check'')))
                 # rest"
      using Check_opens_marker [of tool currentVersion repo filePrefix versionStable hours
               upgradeCommand w]
      unfolding j .
    assume "CHR ''/'' \<notin> set tool"
    then show "filepath_Clean (''.'' @ tool @ ''-version-check'')
                 = ''.'' @ tool @ ''-version-check''"
      by (rule marker_name_Clean)
  qed
qed

lemma cex_fn: "''b-version-check'' = filepath_Join (GetHome w0) (''.'' @ ''a/../b'' @ ''-version-check'')"
  by code_simp

lemma cex_fresh: "f64_less (Duration_Hours (Time_Sub (clock w0) (mtime (marker_of w0 ''b-version-check'')))) (Finite 24)"
  by code_simp

text \<open>
  Claim C10 as stated, for every tool name, fails: for the tool name \<^verbatim>\<open>a/../b\<close> the
  marker that is opened and created is \<^verbatim>\<open>b-version-check\<close>, and no file named
  \<^verbatim>\<open>.a/../b-version-check\<close> comes to exist.
\<close>

theorem marker_path_traversal_counterexample:
  "GetHome w0 = []
   \<and> ''b-version-check'' \<noteq> ''.'' @ ''a/../b'' @ ''-version-check''
   \<and> hd (trace (snd (CheckAndNotifyIfOutOfDate ''a/../b'' ''1.2.2'' ''http://r'' ''.version-''
                      ''latest'' (Finite 24) ''cooltool upgrade'' w0)))
       = EvSys (SysOpen ''b-version-check'')
   \<and> fs (snd (CheckAndNotifyIfOutOfDate ''a/../b'' ''1.2.2'' ''http://r'' ''.version-''
                 ''latest'' (Finite 24) ''cooltool upgrade'' w0)) (''.'' @ ''a/../b'' @ ''-version-check'')
       = None
   \<and> fs (snd (CheckAndNotifyIfOutOfDate ''a/../b'' ''1.2.2'' ''http://r'' ''.version-''
                 ''latest'' (Finite 24) ''cooltool upgrade'' w0)) ''b-version-check''
       = Some \<lparr>content = [], mode = 420, mtime = 90000000000000\<rparr>"
proof -
  note run = Check_skip [OF cex_fn demo_f(2) demo_f(2) cex_fresh,
      of "''1.2.2''" "''http://r''" "''.version-''" "''latest''" "''cooltool upgrade''"]
  have "GetHome w0 = []"
    by (simp add: GetHome_def os_Getenv_def w0_def)
  then show ?thesis
    by (simp add: run) (simp add: w0_def marker_of_def)
qed

theorem GetHome_empty_marker_path_witness:
  "(environ w0 ''HOME'' = None \<or> environ w0 ''HOME'' = Some [])
   \<and> (environ w0 ''USERPROFILE'' = None \<or> environ w0 ''USERPROFILE'' = Some [])
   \<and> CHR ''/'' \<notin> set ''cooltool''
   \<and> GetHome w0 = []
   \<and> filepath_Clean (''.'' @ ''cooltool'' @ ''-version-check'') = ''.'' @ ''cooltool'' @ ''-version-check''"
proof -
  have e1: "environ w0 ''HOME'' = None \<or> environ w0 ''HOME'' = Some []"
    by (simp add: w0_def)
  have e2: "environ w0 ''USERPROFILE'' = None \<or> environ w0 ''USERPROFILE'' = Some []"
    by (simp add: w0_def)
  have ns: "CHR ''/'' \<notin> set ''cooltool''" by simp
  note t = GetHome_empty_marker_path [OF e1 e2, of "''cooltool''"]
  show ?thesis
    by (intro conjI e1 e2 ns t [THEN conjunct1] t [THEN conjunct2, THEN conjunct2, rule_format, OF ns])
qed

subsection \<open>Upgrade: replacing the executable\<close>

lemma firstFree_Some:
  "firstFree m ns = Some n \<Longrightarrow> n \<in> set ns \<and> m n = None"
  by (induction ns) (auto split: if_splits)

lemma TempFile_success:
  assumes "ioutil_TempFile pattern w = ((tmp, None), w1)"
  shows "fs w tmp = None" and "tmp \<in> set (tempNames w pattern)"
    and "w1 = w\<lparr>fs := (fs w)(tmp \<mapsto> \<lparr>content = [], mode = 384, mtime = clock w\<rparr>),
                 trace := trace w @ [EvSys (SysCreateTemp pattern)]\<rparr>"
  using assms
  by (auto simp add: ioutil_TempFile_def log_def Let_def dest: firstFree_Some
        split: if_splits option.splits)

lemma io_Copy_ok:
  assumes "io_Copy fn resp w = (None, w')" and "fs w fn = Some f"
  shows "body_err resp = None"
    and "\<exists>f'. fs w' = (fs w)(fn \<mapsto> f') \<and> content f' = content f @ body resp"
    and "w' = w\<lparr>fs := fs w', trace := trace w'\<rparr>"
proof -
  show "body_err resp = None"
    using assms by (auto simp add: io_Copy_def log_def Let_def split: if_splits option.splits)
  show "\<exists>f'. fs w' = (fs w)(fn \<mapsto> f') \<and> content f' = content f @ body resp"
  proof (cases "body resp = []")
    case True
    then have "w' = w" using assms by (simp add: io_Copy_def)
    then have "fs w' = (fs w)(fn \<mapsto> f)" using assms(2) by (simp add: fun_upd_idem)
    then show ?thesis using True by auto
  next
    case False
    then have "fs w' = (fs w)(fn \<mapsto> f\<lparr>content := content f @ body resp, mtime := clock w\<rparr>)"
      using assms by (auto simp add: io_Copy_def log_def Let_def split: option.splits)
    then show ?thesis by auto
  qed
  show "w' = w\<lparr>fs := fs w', trace := trace w'\<rparr>"
    using assms by (auto simp add: io_Copy_def log_def Let_def split: if_splits option.splits)
qed


lemma Download_deferred_ok:
  assumes d: "Download_deferred repo version tool tmp w = (Ret (t', None), w')"
    and f: "fs w tmp = Some f"
  shows "t' = tmp"
    and "\<exists>resp f'. http_reply w (repo @ ''/'' @ version @ ''/'' @ tool @ ''_'' @ GOOS w @ ''_''
                                  @ GOARCH w) = Inr resp
            \<and> StatusCode resp = 200 \<and> body_err resp = None
            \<and> fs w' = (fs w)(tmp \<mapsto> f') \<and> content f' = content f @ body resp"
    and "w' = w\<lparr>fs := fs w', trace := trace w'\<rparr>"
proof -
  let ?url = "repo @ ''/'' @ version @ ''/'' @ tool @ ''_'' @ GOOS w @ ''_'' @ GOARCH w"
  let ?w1 = "w\<lparr>trace := trace w @ map EvHttpGet (http_requests w ?url)\<rparr>"
  obtain ret e wb where b: "Download_body repo version tool tmp w = ((ret, e), wb)"
    by (metis prod.exhaust)
  have ret: "ret = (t', None)"
    using d b by (simp add: Download_deferred_def)
  obtain resp where r: "http_reply w ?url = Inr resp"
    using b ret by (cases "http_reply w ?url") (auto simp add: Download_body_def http_Get_def)
  have st: "StatusCode resp = 200"
    using b ret r by (auto simp add: Download_body_def http_Get_def split: if_splits)
  obtain ec w2 where c: "io_Copy tmp resp ?w1 = (ec, w2)" by (metis prod.exhaust)
  have ec: "ec = None" and wb: "wb = w2" and e: "e = None" and tt: "t' = tmp"
    using b ret r st c by (auto simp add: Download_body_def http_Get_def split: option.splits)
  have w': "w' = w2"
    using d b e wb by (simp add: Download_deferred_def)
  have f1: "fs ?w1 tmp = Some f" using f by simp
  note C = io_Copy_ok [OF c [unfolded ec] f1]
  show "t' = tmp" by (rule tt)
  show "\<exists>resp f'. http_reply w ?url = Inr resp
            \<and> StatusCode resp = 200 \<and> body_err resp = None
            \<and> fs w' = (fs w)(tmp \<mapsto> f') \<and> content f' = content f @ body resp"
    using r st C(1) C(2) w' by auto
  have "w2 = ?w1\<lparr>fs := fs w2, trace := trace w2\<rparr>" by (rule C(3))
  then show "w' = w\<lparr>fs := fs w', trace := trace w'\<rparr>"
    unfolding w' by simp
qed


lemma frame_trans:
  assumes "w2 = w1\<lparr>fs := a, trace := b\<rparr>" and "w1 = w\<lparr>fs := c, trace := d\<rparr>"
  shows "w2 = w\<lparr>fs := fs w2, trace := trace w2\<rparr>"
  by (simp add: assms)

lemma Chmod_frame:
  assumes "File_Chmod fn m w = (e, w2)" and "fs w fn = Some f"
  shows "\<exists>f'. fs w2 = (fs w)(fn \<mapsto> f') \<and> content f' = content f"
    and "w2 = w\<lparr>fs := fs w2, trace := trace w2\<rparr>"
proof -
  show "\<exists>f'. fs w2 = (fs w)(fn \<mapsto> f') \<and> content f' = content f"
  proof (cases "faults w (SysChmod fn)")
    case None
    then have "fs w2 = (fs w)(fn \<mapsto> f\<lparr>mode := m\<rparr>)"
      using assms by (auto simp add: File_Chmod_def log_def)
    then show ?thesis by auto
  next
    case (Some a)
    then have "fs w2 = fs w"
      using assms by (auto simp add: File_Chmod_def log_def)
    then have "fs w2 = (fs w)(fn \<mapsto> f)"
      using assms(2) by (simp add: fun_upd_idem)
    then show ?thesis by auto
  qed
  show "w2 = w\<lparr>fs := fs w2, trace := trace w2\<rparr>"
    using assms by (auto simp add: File_Chmod_def log_def Let_def split: option.splits)
qed

lemma Download_success:
  assumes dl: "Download repo version tool w = (Ret (tmp, None), w')"
  shows "fs w tmp = None" and "tmp \<in> set (tempNames w (tool @ ''_upgrade''))"
    and "\<exists>resp f. http_reply w (repo @ ''/'' @ version @ ''/'' @ tool @ ''_'' @ GOOS w @ ''_''
                                @ GOARCH w) = Inr resp
            \<and> StatusCode resp = 200 \<and> body_err resp = None
            \<and> fs w' = (fs w)(tmp \<mapsto> f) \<and> content f = body resp"
    and "w' = w\<lparr>fs := fs w', trace := trace w'\<rparr>"
proof -
  obtain t e1 w1 where tf: "ioutil_TempFile (tool @ ''_upgrade'') w = ((t, e1), w1)"
    by (metis prod.exhaust)
  have e1: "e1 = None"
    using dl tf by (auto simp add: Download_def split: option.splits)
  note T = TempFile_success [OF tf [unfolded e1]]
  let ?f0 = "\<lparr>content = [], mode = 384, mtime = clock w\<rparr>"
  have f1: "fs w1 t = Some ?f0" by (subst T(3)) simp
  obtain e2 w2 where ch: "File_Chmod t 493 w1 = (e2, w2)" by (metis prod.exhaust)
  have d: "Download_deferred repo version tool t w2 = (Ret (tmp, None), w')"
  proof (cases e2)
    case None
    then show ?thesis using dl tf e1 ch by (simp add: Download_def)
  next
    case (Some err)
    then show ?thesis using dl tf e1 ch
      by (cases err) (auto simp add: Download_def split: if_splits)
  qed
  note C = Chmod_frame [OF ch f1]
  from C(1) obtain f2 where f2: "fs w2 = (fs w1)(t \<mapsto> f2)" "content f2 = []" by auto
  have fw2: "fs w2 t = Some f2" by (simp add: f2(1))
  note D = Download_deferred_ok [OF d fw2]
  have w2w: "w2 = w\<lparr>fs := fs w2, trace := trace w2\<rparr>"
    by (rule frame_trans [OF C(2) T(3)])
  have srv: "server w2 = server w" "resolve w2 = resolve w"
    by (subst w2w, simp)+
  have same: "GOOS w2 = GOOS w" "GOARCH w2 = GOARCH w" "http_reply w2 = http_reply w"
    by (subst w2w, simp, subst w2w, simp, rule http_reply_cong [OF srv])
  have fs1: "fs w1 = (fs w)(t \<mapsto> ?f0)" by (subst T(3)) simp
  show "fs w tmp = None" using T(1) D(1) by simp
  show "tmp \<in> set (tempNames w (tool @ ''_upgrade''))" using T(2) D(1) by simp
  from D(2) obtain resp f' where R: "http_reply w2 (repo @ ''/'' @ version @ ''/'' @ tool @ ''_''
        @ GOOS w2 @ ''_'' @ GOARCH w2) = Inr resp" "StatusCode resp = 200"
      "body_err resp = None" "fs w' = (fs w2)(t \<mapsto> f')" "content f' = content f2 @ body resp"
    by auto
  have "fs w' = (fs w)(tmp \<mapsto> f')"
    using R(4) f2(1) fs1 D(1) by simp
  moreover have "content f' = body resp" using R(5) f2(2) by simp
  ultimately show "\<exists>resp f. http_reply w (repo @ ''/'' @ version @ ''/'' @ tool @ ''_'' @ GOOS w
        @ ''_'' @ GOARCH w) = Inr resp
            \<and> StatusCode resp = 200 \<and> body_err resp = None
            \<and> fs w' = (fs w)(tmp \<mapsto> f) \<and> content f = body resp"
    using R(1,2,3) same by auto
  show "w' = w\<lparr>fs := fs w', trace := trace w'\<rparr>"
    by (rule frame_trans [OF D(3) w2w])
qed

lemma digit_char_not_tilde: "d < 10 \<Longrightarrow> digit_char d \<noteq> CHR ''~''"
proof
  assume d: "d < 10" and "digit_char d = CHR ''~''"
  then have "of_char (char_of (48 + d) :: char) = (of_char (CHR ''~'') :: nat)"
    by (simp add: digit_char_def)
  then show False using d by simp
qed

lemma Itoa_last: "Itoa n \<noteq> [] \<and> last (Itoa n) = digit_char (n mod 10)"
  by (subst (1 2) Itoa.simps) simp

lemma lastStar_Some: "lastStar p = Some (a, b) \<Longrightarrow> p = a @ CHR ''*'' # b"
  by (induction p arbitrary: a b) (auto split: option.splits if_splits)

lemma tempName_last:
  assumes "n \<in> set (tempNames w (tool @ ''_upgrade''))"
  shows "n \<noteq> [] \<and> last n \<noteq> CHR ''~''"
proof -
  obtain prefix suffix where ps: "prefixAndSuffix (tool @ ''_upgrade'') = (prefix, suffix)"
    by (metis prod.exhaust)
  from assms ps obtain r where n: "n = joinPath (os_TempDir w) (prefix @ Itoa r @ suffix)"
    by (auto simp add: tempNames_def)
  let ?name = "prefix @ Itoa r @ suffix"
  have ne: "?name \<noteq> []" using Itoa_last [of r] by simp
  have l: "last ?name \<noteq> CHR ''~''"
  proof (cases "suffix = []")
    case True
    then have "last ?name = digit_char (r mod 10)" using Itoa_last [of r] by simp
    then show ?thesis using digit_char_not_tilde [of "r mod 10"] by simp
  next
    case False
    then obtain a where "tool @ ''_upgrade'' = a @ CHR ''*'' # suffix"
      using ps lastStar_Some [of "tool @ ''_upgrade''"]
      by (auto simp add: prefixAndSuffix_def split: option.splits)
    then have "last (tool @ ''_upgrade'') = last suffix"
      using False by simp
    then have "last suffix = CHR ''e''" by simp
    then show ?thesis using False by simp
  qed
  show ?thesis
    using ne l unfolding n joinPath_def by (auto simp del: append_assoc)
qed

lemma tempName_not_backup:
  "n \<in> set (tempNames w (tool @ ''_upgrade'')) \<Longrightarrow> n \<noteq> arg0 @ ''~''"
  using tempName_last [of n w tool] by auto

lemma PRVersion_Compare_sym:
  "PRVersion_Compare x y = 0 \<Longrightarrow> PRVersion_Compare y x = 0"
  "PRVersion_Compare x y = 1 \<Longrightarrow> PRVersion_Compare y x = - 1"
  by (auto simp add: PRVersion_Compare_def split: if_splits)

lemma Pre_Compare_sym: "Pre_Compare xs ys = 1 \<Longrightarrow> Pre_Compare ys xs = - 1"
proof (induction xs ys rule: Pre_Compare.induct)
  case (4 x xs y ys)
  then show ?case
    using PRVersion_Compare_sym [of x y]
    by (auto simp add: Let_def split: if_splits)
qed simp_all

lemma GT_not_GTE: "GT a c \<Longrightarrow> \<not> GTE c a"
proof -
  assume "GT a c"
  then have "Compare c a = - 1"
    using Pre_Compare_sym [of "Pre a" "Pre c"]
    by (auto simp add: GT_def Compare_def split: if_splits)
  then show ?thesis by (simp add: GTE_def)
qed

lemma RemoveBackup_ok:
  assumes "RemoveBackup w = ((arg0, backup, None), w2)"
  shows "arg0 = exe w" and "backup = exe w @ ''~''"
    and "w2 = w\<lparr>fs := (fs w)(exe w @ ''~'' := None),
                 trace := trace w @ [EvSys SysExecutable, EvSys (SysRemoveAll (exe w @ ''~''))]\<rparr>"
  using assms
  by (auto simp add: RemoveBackup_def os_Executable_def os_RemoveAll_def log_def Let_def
        errors_Wrap_def split: option.splits)

lemma Rename_fail:
  assumes "os_Rename a b w = (Some e, w')"
  shows "w' = w\<lparr>trace := trace w @ [EvSys (SysRename a b)]\<rparr>"
  using assms by (auto simp add: os_Rename_def log_def Let_def split: option.splits)

lemma Rename_ok:
  assumes "os_Rename a b w = (None, w')"
  shows "\<exists>f. fs w a = Some f \<and>
           w' = w\<lparr>fs := ((fs w)(a := None))(b \<mapsto> f), trace := trace w @ [EvSys (SysRename a b)]\<rparr>"
  using assms by (auto simp add: os_Rename_def log_def Let_def split: option.splits)

lemma Copy_ok:
  assumes "shutil_Copy src dst w = (None, w')"
  shows "\<exists>f. fs w src = Some f \<and>
           w' = w\<lparr>fs := (fs w)(dst \<mapsto> \<lparr>content = content f, mode = mode f, mtime = clock w\<rparr>),
                  trace := trace w @ [EvSys (SysCopy src dst)]\<rparr>"
  using assms by (auto simp add: shutil_Copy_def log_def Let_def split: option.splits if_splits)

lemma Remove_ok:
  assumes "os_Remove p w = (None, w')"
  shows "w' = w\<lparr>fs := (fs w)(p := None), trace := trace w @ [EvSys (SysRemove p)]\<rparr>"
  using assms by (auto simp add: os_Remove_def log_def Let_def split: option.splits)


lemma Upgrade_downloaded:
  assumes av: "AvailableVersion repo filePrefix versionStable w = ((avail, None), w1)"
    and rb: "RemoveBackup w1 = ((arg0, backup, None), w2)"
    and dl: "Download repo version tool (log ev w2) = (Ret (tmp, None), w3)"
  shows "arg0 = exe w" and "backup = exe w @ ''~''" and "tmp \<noteq> backup" and "fs w tmp = None"
    and "\<exists>resp f. http_reply w (repo @ ''/'' @ version @ ''/'' @ tool @ ''_'' @ GOOS w @ ''_''
                                @ GOARCH w) = Inr resp
            \<and> StatusCode resp = 200 \<and> body_err resp = None
            \<and> fs w3 = ((fs w)(backup := None))(tmp \<mapsto> f) \<and> content f = body resp"
    and "w3 = w\<lparr>fs := fs w3, trace := trace w3\<rparr>"
proof -
  have w1: "w1 = w\<lparr>trace := trace w @
                map EvHttpGet (http_requests w (repo @ ''/'' @ filePrefix @ versionStable))\<rparr>"
    using AvailableVersion_world [of repo filePrefix versionStable w] av by simp
  note R = RemoveBackup_ok [OF rb]
  have e1: "exe w1 = exe w" by (simp add: w1)
  show a: "arg0 = exe w" using R(1) e1 by simp
  show b: "backup = exe w @ ''~''" using R(2) e1 by simp
  let ?w2 = "log ev w2"
  have w2': "?w2 = w\<lparr>fs := (fs w)(backup := None), trace := trace ?w2\<rparr>"
    by (simp add: R(3) log_def w1 b)
  note D = Download_success [OF dl]
  have names: "tempNames ?w2 (tool @ ''_upgrade'') = tempNames w (tool @ ''_upgrade'')"
    by (subst w2') (simp add: tempNames_def os_TempDir_def os_Getenv_def)
  show nb: "tmp \<noteq> backup"
    using D(2) tempName_not_backup [of tmp w tool "exe w"] unfolding names b by simp
  have "fs ?w2 tmp = None" by (rule D(1))
  then have "((fs w)(backup := None)) tmp = None" by (subst (asm) w2') simp
  then show "fs w tmp = None" using nb by simp
  have srv: "server ?w2 = server w" "resolve ?w2 = resolve w"
    by (subst w2', simp)+
  have same: "GOOS ?w2 = GOOS w" "GOARCH ?w2 = GOARCH w"
    "fs ?w2 = (fs w)(backup := None)" "http_reply ?w2 = http_reply w"
    by (subst w2', simp, subst w2', simp, subst w2', simp, rule http_reply_cong [OF srv])
  show "\<exists>resp f. http_reply w (repo @ ''/'' @ version @ ''/'' @ tool @ ''_'' @ GOOS w @ ''_''
                                @ GOARCH w) = Inr resp
            \<and> StatusCode resp = 200 \<and> body_err resp = None
            \<and> fs w3 = ((fs w)(backup := None))(tmp \<mapsto> f) \<and> content f = body resp"
    using D(3) unfolding same .
  show "w3 = w\<lparr>fs := fs w3, trace := trace w3\<rparr>"
    by (rule frame_trans [OF D(4) w2'])
qed

text \<open>
  Claim C6. Take a run of \<^verbatim>\<open>Upgrade\<close> in which both versions resolve, the upgrade is
  due (forced, or the current version is not greater than or equal to the available one),
  \<^verbatim>\<open>RemoveBackup\<close> and \<^verbatim>\<open>Download\<close> return without error, and the rename of the
  executable \<open>arg0\<close> to the backup path fails with \<open>err\<close>. Then \<^verbatim>\<open>Upgrade\<close> returns
  the non-nil error that wraps \<open>err\<close>, the file at \<open>arg0\<close> is the original one, and
  the temporary file is still there, holding the body of the reply that \<^verbatim>\<open>http.Get\<close>
  returned for the binary's URL, which is the server's answer to the last GET of that call
  (the GET of the binary's URL itself unless the server redirects).
\<close>

theorem Upgrade_rename_to_backup_fails:
  assumes cv: "CurrentVersion w currentVersion = (cur, None)"
    and av: "AvailableVersion repo filePrefix versionStable w = ((avail, None), w1)"
    and force: "force \<or> \<not> GTE cur avail"
    and rb: "RemoveBackup w1 = ((arg0, backup, None), w2)"
    and dl: "Download repo (Version_String avail) tool
               (log (EvStdout (''upgrading '' @ arg0 @ '' to '' @ Version_String avail @ newline))
                  w2) = (Ret (tmp, None), w3)"
    and rn: "os_Rename arg0 backup w3 = (Some err, w4)"
    and orig: "fs w arg0 = Some orig"
    and args: "Args w = a0 # as"
  shows "fst (Upgrade tool currentVersion repo filePrefix versionStable (Some force) w) =
           Ret (Some (withMessage err (''unable to upgrade '' @ tool @ '' in-place; move ''
                                        @ tmp @ '' to '' @ a0)))
       \<and> fs (snd (Upgrade tool currentVersion repo filePrefix versionStable (Some force) w)) arg0
           = Some orig
       \<and> (\<exists>resp f. http_reply w (repo @ ''/'' @ Version_String avail @ ''/'' @ tool @ ''_''
                               @ GOOS w @ ''_'' @ GOARCH w) = Inr resp
             \<and> server w (last (http_requests w (repo @ ''/'' @ Version_String avail @ ''/''
                                  @ tool @ ''_'' @ GOOS w @ ''_'' @ GOARCH w))) = Inr resp
             \<and> fs (snd (Upgrade tool currentVersion repo filePrefix versionStable (Some force) w))
                  tmp = Some f
             \<and> content f = body resp)"
proof -
  note U = Upgrade_downloaded [OF av rb dl]
  note w4 = Rename_fail [OF rn]
  have a4: "Args w4 = a0 # as"
    by (subst w4, subst U(6)) (simp add: args)
  have run: "Upgrade tool currentVersion repo filePrefix versionStable (Some force) w =
     (Ret (Some (withMessage err (''unable to upgrade '' @ tool @ '' in-place; move ''
                                        @ tmp @ '' to '' @ a0))), w4)"
    using force dl by (auto simp add: Upgrade_def cv av rb rn move_hint_def a4 errors_Wrap_def)
  have fs4: "fs w4 = fs w3" by (subst w4) simp
  from U(5) obtain resp f where R: "http_reply w (repo @ ''/'' @ Version_String avail @ ''/'' @ tool
        @ ''_'' @ GOOS w @ ''_'' @ GOARCH w) = Inr resp"
      "fs w3 = ((fs w)(backup := None))(tmp \<mapsto> f)" "content f = body resp"
    by auto
  have ne: "tmp \<noteq> arg0" using U(4) orig by auto
  have nb: "arg0 \<noteq> backup" using U(1,2) by simp
  have "fs w4 arg0 = Some orig"
    using R(2) ne nb orig by (simp add: fs4)
  moreover have "fs w4 tmp = Some f" using R(2) by (simp add: fs4)
  ultimately show ?thesis
    using R(1,3) http_reply_last [OF R(1)] by (auto simp add: run)
qed


text \<open>
  Claim C3. Take a run of \<^verbatim>\<open>Upgrade\<close> in which both versions resolve, the available
  version is greater than the current one, and every step succeeds: \<^verbatim>\<open>RemoveBackup\<close>,
  \<^verbatim>\<open>Download\<close>, the rename to the backup path, the copy of the temporary file and its
  removal all return without error. Then \<^verbatim>\<open>Upgrade\<close> returns \<^verbatim>\<open>nil\<close>, the file at
  the executable's own path \<open>exe w\<close> holds exactly the body served by the binary endpoint
  for the available version (the body of the reply that \<^verbatim>\<open>http.Get\<close> returned for the
  binary's URL, which is the server's answer to the last GET of that call: the GET of the
  binary's URL itself unless the server redirects), and the file at that path with
  \<^verbatim>\<open>~\<close> appended is the original executable.
\<close>

theorem Upgrade_success:
  assumes cv: "CurrentVersion w currentVersion = (cur, None)"
    and av: "AvailableVersion repo filePrefix versionStable w = ((avail, None), w1)"
    and gt: "GT avail cur"
    and rb: "RemoveBackup w1 = ((arg0, backup, None), w2)"
    and dl: "Download repo (Version_String avail) tool
               (log (EvStdout (''upgrading '' @ arg0 @ '' to '' @ Version_String avail @ newline))
                  w2) = (Ret (tmp, None), w3)"
    and rn: "os_Rename arg0 backup w3 = (None, w4)"
    and cp: "shutil_Copy tmp arg0 w4 = (None, w5)"
    and rm: "os_Remove tmp w5 = (None, w6)"
    and orig: "fs w (exe w) = Some orig"
  shows "fst (Upgrade tool currentVersion repo filePrefix versionStable (Some force) w) = Ret None
       \<and> (\<exists>resp f. http_reply w (repo @ ''/'' @ Version_String avail @ ''/'' @ tool @ ''_''
                               @ GOOS w @ ''_'' @ GOARCH w) = Inr resp
             \<and> server w (last (http_requests w (repo @ ''/'' @ Version_String avail @ ''/''
                                  @ tool @ ''_'' @ GOOS w @ ''_'' @ GOARCH w))) = Inr resp
             \<and> fs (snd (Upgrade tool currentVersion repo filePrefix versionStable (Some force) w))
                  (exe w) = Some f
             \<and> content f = body resp)
       \<and> fs (snd (Upgrade tool currentVersion repo filePrefix versionStable (Some force) w))
            (exe w @ ''~'') = Some orig"
proof -
  note U = Upgrade_downloaded [OF av rb dl]
  have elapsed: "\<not> GTE cur avail" by (rule GT_not_GTE [OF gt])
  have run: "Upgrade tool currentVersion repo filePrefix versionStable (Some force) w =
               (Ret None, w6)"
    using elapsed dl by (auto simp add: Upgrade_def cv av rb rn cp rm)
  from U(5) obtain resp f where R: "http_reply w (repo @ ''/'' @ Version_String avail @ ''/'' @ tool
        @ ''_'' @ GOOS w @ ''_'' @ GOARCH w) = Inr resp"
      "fs w3 = ((fs w)(backup := None))(tmp \<mapsto> f)" "content f = body resp"
    by auto
  have a: "arg0 = exe w" and b: "backup = exe w @ ''~''" by (rule U(1), rule U(2))
  have ne: "tmp \<noteq> arg0" using U(4) orig a by auto
  have nb: "arg0 \<noteq> backup" using a b by simp
  have tb: "tmp \<noteq> backup" by (rule U(3))
  have o3: "fs w3 arg0 = Some orig" using R(2) ne nb orig a by simp
  from Rename_ok [OF rn] o3
  have fs4: "fs w4 = ((fs w3)(arg0 := None))(backup \<mapsto> orig)" and c4: "clock w4 = clock w3"
    by auto
  have t4: "fs w4 tmp = Some f" using R(2) ne tb by (simp add: fs4)
  from Copy_ok [OF cp] t4
  have fs5: "fs w5 = (fs w4)(arg0 \<mapsto> \<lparr>content = content f, mode = mode f, mtime = clock w4\<rparr>)"
    by auto
  have fs6: "fs w6 = (fs w5)(tmp := None)"
    by (subst Remove_ok [OF rm]) simp
  have "fs w6 arg0 = Some \<lparr>content = content f, mode = mode f, mtime = clock w4\<rparr>"
    using ne by (simp add: fs6 fs5)
  moreover have "fs w6 backup = Some orig"
    using tb nb by (simp add: fs6 fs5 fs4)
  ultimately show ?thesis
    using R(1,3) http_reply_last [OF R(1)] by (auto simp add: run a b)
qed

lemma pair_fstI: "fst x = a \<Longrightarrow> x = (a, snd x)"
  by auto

theorem Upgrade_success_witness:
  "GT (V 1 2 3) (V 1 2 2)
   \<and> fs w0 (exe w0) = Some \<lparr>content = ''OLD'', mode = 493, mtime = 0\<rparr>
   \<and> fst (Upgrade ''cooltool'' ''1.2.2'' ''http://r'' ''.version-'' ''latest'' (Some False) w0)
       = Ret None
   \<and> map_option content
        (fs (snd (Upgrade ''cooltool'' ''1.2.2'' ''http://r'' ''.version-'' ''latest''
                    (Some False) w0)) (exe w0)) = Some ''NEW''
   \<and> fs (snd (Upgrade ''cooltool'' ''1.2.2'' ''http://r'' ''.version-'' ''latest'' (Some False)
               w0)) (exe w0 @ ''~'')
       = Some \<lparr>content = ''OLD'', mode = 493, mtime = 0\<rparr>"
proof -
  let ?A = "AvailableVersion ''http://r'' ''.version-'' ''latest'' w0"
  let ?R = "RemoveBackup (snd ?A)"
  let ?D = "Download ''http://r'' (Version_String (V 1 2 3)) ''cooltool''
              (log (EvStdout (''upgrading '' @ ''/bin/cooltool'' @ '' to ''
                               @ Version_String (V 1 2 3) @ newline)) (snd ?R))"
  let ?N = "os_Rename ''/bin/cooltool'' ''/bin/cooltool~'' (snd ?D)"
  let ?C = "shutil_Copy ''/tmp/cooltool_upgrade7'' ''/bin/cooltool'' (snd ?N)"
  let ?M = "os_Remove ''/tmp/cooltool_upgrade7'' (snd ?C)"
  have cv: "CurrentVersion w0 ''1.2.2'' = (V 1 2 2, None)" by code_simp
  have av: "?A = ((V 1 2 3, None), snd ?A)" by (rule pair_fstI) code_simp
  have gt: "GT (V 1 2 3) (V 1 2 2)" by code_simp
  have rb: "?R = ((''/bin/cooltool'', ''/bin/cooltool~'', None), snd ?R)"
    by (rule pair_fstI) code_simp
  have dl: "?D = (Ret (''/tmp/cooltool_upgrade7'', None), snd ?D)"
    by (rule pair_fstI) code_simp
  have rn: "?N = (None, snd ?N)" by (rule pair_fstI) code_simp
  have cp: "?C = (None, snd ?C)" by (rule pair_fstI) code_simp
  have rm: "?M = (None, snd ?M)" by (rule pair_fstI) code_simp
  have orig: "fs w0 (exe w0) = Some \<lparr>content = ''OLD'', mode = 493, mtime = 0\<rparr>"
    by code_simp
  have url: "''http://r'' @ ''/'' @ Version_String (V 1 2 3) @ ''/'' @ ''cooltool'' @ ''_''
      @ GOOS w0 @ ''_'' @ GOARCH w0 = ''http://r/1.2.3/cooltool_linux_amd64''"
    by code_simp
  have srv: "http_reply w0 ''http://r/1.2.3/cooltool_linux_amd64'' = Inr (ok_response ''NEW'')"
    by code_simp
  note T = Upgrade_success [OF cv av gt rb dl rn cp rm orig, where force = False,
      unfolded url srv]
  have e: "exe w0 = ''/bin/cooltool''" by (simp add: w0_def)
  show ?thesis
    using T gt orig by (auto simp add: ok_response_def)
qed


theorem Upgrade_rename_to_backup_fails_witness:
  "fs w_renamefail ''/bin/cooltool'' = Some \<lparr>content = ''OLD'', mode = 493, mtime = 0\<rparr>
   \<and> Args w_renamefail = [''cooltool'']
   \<and> fst (Upgrade ''cooltool'' ''1.2.2'' ''http://r'' ''.version-'' ''latest'' (Some False)
            w_renamefail)
       = Ret (Some (withMessage
                      (LinkError ''rename'' ''/bin/cooltool'' ''/bin/cooltool~''
                         (Errno ''permission denied''))
                      (''unable to upgrade '' @ ''cooltool'' @ '' in-place; move ''
                         @ ''/tmp/cooltool_upgrade7'' @ '' to '' @ ''cooltool'')))
   \<and> fs (snd (Upgrade ''cooltool'' ''1.2.2'' ''http://r'' ''.version-'' ''latest'' (Some False)
               w_renamefail)) ''/bin/cooltool''
       = Some \<lparr>content = ''OLD'', mode = 493, mtime = 0\<rparr>
   \<and> map_option content
        (fs (snd (Upgrade ''cooltool'' ''1.2.2'' ''http://r'' ''.version-'' ''latest''
                    (Some False) w_renamefail)) ''/tmp/cooltool_upgrade7'') = Some ''NEW''"
proof -
  let ?w = w_renamefail
  let ?A = "AvailableVersion ''http://r'' ''.version-'' ''latest'' ?w"
  let ?R = "RemoveBackup (snd ?A)"
  let ?D = "Download ''http://r'' (Version_String (V 1 2 3)) ''cooltool''
              (log (EvStdout (''upgrading '' @ ''/bin/cooltool'' @ '' to ''
                               @ Version_String (V 1 2 3) @ newline)) (snd ?R))"
  let ?N = "os_Rename ''/bin/cooltool'' ''/bin/cooltool~'' (snd ?D)"
  let ?e = "LinkError ''rename'' ''/bin/cooltool'' ''/bin/cooltool~'' (Errno ''permission denied'')"
  have cv: "CurrentVersion ?w ''1.2.2'' = (V 1 2 2, None)" by code_simp
  have av: "?A = ((V 1 2 3, None), snd ?A)" by (rule pair_fstI) code_simp
  have force: "False \<or> \<not> GTE (V 1 2 2) (V 1 2 3)" by code_simp
  have rb: "?R = ((''/bin/cooltool'', ''/bin/cooltool~'', None), snd ?R)"
    by (rule pair_fstI) code_simp
  have dl: "?D = (Ret (''/tmp/cooltool_upgrade7'', None), snd ?D)"
    by (rule pair_fstI) code_simp
  have rn: "?N = (Some ?e, snd ?N)" by (rule pair_fstI) code_simp
  have orig: "fs ?w ''/bin/cooltool'' = Some \<lparr>content = ''OLD'', mode = 493, mtime = 0\<rparr>"
    by code_simp
  have args: "Args ?w = ''cooltool'' # []" by code_simp
  have url: "''http://r'' @ ''/'' @ Version_String (V 1 2 3) @ ''/'' @ ''cooltool'' @ ''_''
      @ GOOS ?w @ ''_'' @ GOARCH ?w = ''http://r/1.2.3/cooltool_linux_amd64''"
    by code_simp
  have srv: "http_reply ?w ''http://r/1.2.3/cooltool_linux_amd64'' = Inr (ok_response ''NEW'')"
    by code_simp
  note T = Upgrade_rename_to_backup_fails [OF cv av force rb dl rn orig args, unfolded url srv]
  show ?thesis
    using T orig args by (auto simp add: ok_response_def)
qed

subsection \<open>Upgrade: the recovery path in general\<close>

text \<open>
  In every run in which the copy onto the executable fails and the recovery rename
  succeeds, the original file is back at the executable's path and the temporary file is
  kept, and \<^verbatim>\<open>Upgrade\<close> returns \<^verbatim>\<open>nil\<close>.
\<close>

lemma Copy_fail:
  assumes "shutil_Copy src dst w = (Some e, w')"
  shows "\<forall>p. p \<noteq> dst \<longrightarrow> fs w' p = fs w p" and "w' = w\<lparr>fs := fs w', trace := trace w'\<rparr>"
  using assms
  by (auto simp add: shutil_Copy_def log_def Let_def split: option.splits if_splits)

lemma Upgrade_copy_fails_recovered:
  assumes cv: "CurrentVersion w currentVersion = (cur, None)"
    and av: "AvailableVersion repo filePrefix versionStable w = ((avail, None), w1)"
    and force: "force \<or> \<not> GTE cur avail"
    and rb: "RemoveBackup w1 = ((arg0, backup, None), w2)"
    and dl: "Download repo (Version_String avail) tool
               (log (EvStdout (''upgrading '' @ arg0 @ '' to '' @ Version_String avail @ newline))
                  w2) = (Ret (tmp, None), w3)"
    and rn: "os_Rename arg0 backup w3 = (None, w4)"
    and cp: "shutil_Copy tmp arg0 w4 = (Some copy_err, w5)"
    and rc: "os_Rename backup arg0 w5 = (None, w6)"
    and orig: "fs w arg0 = Some orig"
    and args: "Args w = a0 # as"
  shows "Upgrade tool currentVersion repo filePrefix versionStable (Some force) w = (Ret None, w6)"
    and "fs w6 arg0 = Some orig"
    and "\<exists>f. fs w6 tmp = Some f"
proof -
  note U = Upgrade_downloaded [OF av rb dl]
  from U(5) obtain f where R: "fs w3 = ((fs w)(backup := None))(tmp \<mapsto> f)" by auto
  have a: "arg0 = exe w" and b: "backup = exe w @ ''~''" by (rule U(1), rule U(2))
  have ne: "tmp \<noteq> arg0" using U(4) orig by auto
  have nb: "arg0 \<noteq> backup" using a b by simp
  have tb: "tmp \<noteq> backup" by (rule U(3))
  have o3: "fs w3 arg0 = Some orig" using R ne nb orig by simp
  from Rename_ok [OF rn] o3
  have w4: "w4 = w3\<lparr>fs := ((fs w3)(arg0 := None))(backup \<mapsto> orig),
                     trace := trace w3 @ [EvSys (SysRename arg0 backup)]\<rparr>"
    by auto
  have fs4: "fs w4 = ((fs w3)(arg0 := None))(backup \<mapsto> orig)" by (subst w4) simp
  note C = Copy_fail [OF cp]
  have b5: "fs w5 backup = Some orig" using C(1) nb by (simp add: fs4)
  have t5: "fs w5 tmp = Some f" using C(1) ne tb R by (simp add: fs4)
  from Rename_ok [OF rc] b5
  have w6: "w6 = w5\<lparr>fs := ((fs w5)(backup := None))(arg0 \<mapsto> orig),
                     trace := trace w5 @ [EvSys (SysRename backup arg0)]\<rparr>"
    by auto
  have fs6: "fs w6 = ((fs w5)(backup := None))(arg0 \<mapsto> orig)" by (subst w6) simp
  have a4: "Args w4 = a0 # as" by (subst w4, subst U(6)) (simp add: args)
  have a5: "Args w5 = a0 # as" by (subst C(2)) (simp add: a4)
  have a6: "Args w6 = a0 # as" by (subst w6) (simp add: a5)
  show "Upgrade tool currentVersion repo filePrefix versionStable (Some force) w = (Ret None, w6)"
    using force dl
    by (auto simp add: Upgrade_def cv av rb rn cp rc move_hint_def a6 errors_Wrap_def)
  show "fs w6 arg0 = Some orig" by (simp add: fs6)
  show "\<exists>f. fs w6 tmp = Some f" using t5 ne tb by (simp add: fs6)
qed

end
